theory Spec2Isabelle
  imports Complex_Main
begin

section \<open>Python values used by \<^verbatim>\<open>pdf_to_h5.py\<close>\<close>

text \<open>
  A Python \<^verbatim>\<open>str\<close> is a sequence of Unicode code points, so it is modelled as a list
  of naturals (one per code point); ASCII literals of the script are written with
  \<open>of_ascii\<close>. The floats of the PDF geometry are idealised as reals; the floats read
  from OCR cells are of type \<open>pyfl\<close> below. Python ints are \<open>int\<close> or, for counts and
  indices that start at 0 and only grow, \<open>nat\<close>.
\<close>

type_synonym pystr = "nat list"

definition of_ascii :: "string \<Rightarrow> pystr" where
  "of_ascii s = map of_char s"

text \<open>
  The characters \<^verbatim>\<open>str.strip()\<close> removes when called without argument: the code
  points for which \<^verbatim>\<open>str.isspace()\<close> holds.
\<close>

definition py_isspace :: "nat \<Rightarrow> bool" where
  "py_isspace c \<longleftrightarrow>
     (9 \<le> c \<and> c \<le> 13) \<or> (28 \<le> c \<and> c \<le> 32) \<or> c = 133 \<or> c = 160 \<or> c = 5760 \<or>
     (8192 \<le> c \<and> c \<le> 8202) \<or> c = 8232 \<or> c = 8233 \<or> c = 8239 \<or> c = 8287 \<or>
     c = 12288"

definition strip :: "pystr \<Rightarrow> pystr" where
  "strip s = rev (dropWhile py_isspace (rev (dropWhile py_isspace s)))"

text \<open>
  What \<^verbatim>\<open>float(...)\<close> returns for a text may be infinite or NaN (\<^verbatim>\<open>float("nan")\<close> does
  not raise), so the floats read from OCR cells carry these values. A comparison is false
  when an operand is NaN.
\<close>

datatype pyfl = Finite real | PosInf | NegInf | NaN

fun fl_less :: "pyfl \<Rightarrow> pyfl \<Rightarrow> bool" where
  "fl_less (Finite a) (Finite b) = (a < b)"
| "fl_less (Finite a) PosInf = True"
| "fl_less NegInf (Finite b) = True"
| "fl_less NegInf PosInf = True"
| "fl_less _ _ = False"

fun fl_le :: "pyfl \<Rightarrow> pyfl \<Rightarrow> bool" where
  "fl_le (Finite a) (Finite b) = (a \<le> b)"
| "fl_le (Finite a) PosInf = True"
| "fl_le NegInf (Finite b) = True"
| "fl_le NegInf PosInf = True"
| "fl_le PosInf PosInf = True"
| "fl_le NegInf NegInf = True"
| "fl_le _ _ = False"

text \<open>The exceptions the pipeline can meet: an index out of range, a text that
  \<^verbatim>\<open>float\<close> does not read (with its message), or a failing engine call (document open,
  rasterisation, OCR) with the engine's message.\<close>

datatype exn = IndexError | ValueError pystr | EngineError pystr

definition str_exn :: "exn \<Rightarrow> pystr" where
  "str_exn e = (case e of IndexError \<Rightarrow> of_ascii ''list index out of range''
                        | ValueError msg \<Rightarrow> msg
                        | EngineError msg \<Rightarrow> msg)"

section \<open>The shared rectangle: \<^verbatim>\<open>bbox_to_dict\<close>\<close>

record bbox_dict =
  box_x :: real
  box_y :: real
  box_w :: real
  box_h :: real

definition bbox_to_dict :: "real \<Rightarrow> real \<Rightarrow> real \<Rightarrow> real \<Rightarrow> bbox_dict" where
  "bbox_to_dict x0 y0 x1 y1 =
     \<lparr>box_x = x0, box_y = y0, box_w = max 0 (x1 - x0), box_h = max 0 (y1 - y0)\<rparr>"

section \<open>What the PDF engine returns for a page\<close>

text \<open>
  \<^verbatim>\<open>page.get_text("dict")\<close> is a tree of dictionaries. Every key the script reads with
  \<^verbatim>\<open>.get\<close> may be absent: \<open>None\<close> stands for an absent key. For the keys read as
  \<^verbatim>\<open>x.get(k) or default\<close> (text, bbox, size, font) and for the bbox of a block, a stored
  \<^verbatim>\<open>None\<close> behaves as an absent key and is \<open>None\<close> too; a stored \<^verbatim>\<open>None\<close> under
  \<^verbatim>\<open>blocks\<close>, \<^verbatim>\<open>lines\<close> or \<^verbatim>\<open>spans\<close> is not modelled.
\<close>

record pdf_span =
  span_text :: "pystr option"
  span_bbox :: "real list option"
  span_size :: "real option"
  span_font :: "pystr option"

record pdf_line =
  line_spans :: "pdf_span list option"

record pdf_block =
  block_type :: "int option"
  block_lines :: "pdf_line list option"
  block_bbox :: "real list option"

record text_dict =
  td_blocks :: "pdf_block list option"

record pixmap =
  pix_width :: int
  pix_height :: int
  pix_samples :: "nat list"

section \<open>Vector text extraction (lines 231 to 257)\<close>

record pdf_item =
  pdf_text :: pystr
  pdf_bbox :: "real list"
  pdf_size :: real
  pdf_font :: pystr

record render_item = bbox_dict +
  item_text :: pystr
  item_size :: real
  item_font :: pystr

text \<open>\<^verbatim>\<open>(span.get("text") or "").strip()\<close>\<close>

definition span_text_of :: "pdf_span \<Rightarrow> pystr" where
  "span_text_of s = strip (case span_text s of None \<Rightarrow> [] | Some t \<Rightarrow> t)"

text \<open>\<^verbatim>\<open>span.get("bbox") or [0, 0, 0, 0]\<close>: an absent and an empty bbox are both falsy.\<close>

definition span_bbox_of :: "pdf_span \<Rightarrow> real list" where
  "span_bbox_of s =
     (case span_bbox s of None \<Rightarrow> [0, 0, 0, 0]
      | Some b \<Rightarrow> if b = [] then [0, 0, 0, 0] else b)"

text \<open>\<^verbatim>\<open>float(span.get("size") or 0.0)\<close> and \<^verbatim>\<open>str(span.get("font") or "")\<close>\<close>

definition span_size_of :: "pdf_span \<Rightarrow> real" where
  "span_size_of s = (case span_size s of None \<Rightarrow> 0 | Some z \<Rightarrow> z)"

definition span_font_of :: "pdf_span \<Rightarrow> pystr" where
  "span_font_of s = (case span_font s of None \<Rightarrow> [] | Some f \<Rightarrow> f)"

text \<open>The body of the innermost loop: the state is the pair of lists
  \<^verbatim>\<open>span_items_pdf\<close>, \<^verbatim>\<open>span_items_render\<close>; each \<^verbatim>\<open>continue\<close> leaves it unchanged.\<close>

definition span_step ::
  "real \<Rightarrow> real \<Rightarrow> pdf_span \<Rightarrow> pdf_item list \<times> render_item list
     \<Rightarrow> pdf_item list \<times> render_item list" where
  "span_step sx sy s st =
     (let text = span_text_of s in
      if text = [] then st
      else
        let bbox = span_bbox_of s in
        if length bbox \<noteq> 4 then st
        else
          let x0 = bbox ! 0; y0 = bbox ! 1; x1 = bbox ! 2; y1 = bbox ! 3;
              item = bbox_to_dict (x0 * sx) (y0 * sy) (x1 * sx) (y1 * sy)
          in (fst st @ [\<lparr>pdf_text = text, pdf_bbox = [x0, y0, x1, y1],
                          pdf_size = span_size_of s, pdf_font = span_font_of s\<rparr>],
              snd st @ [bbox_dict.extend item
                          (render_item.fields text (span_size_of s) (span_font_of s))]))"

fun spans_loop ::
  "real \<Rightarrow> real \<Rightarrow> pdf_span list \<Rightarrow> pdf_item list \<times> render_item list
     \<Rightarrow> pdf_item list \<times> render_item list" where
  "spans_loop sx sy [] st = st"
| "spans_loop sx sy (s # ss) st = spans_loop sx sy ss (span_step sx sy s st)"

fun lines_loop ::
  "real \<Rightarrow> real \<Rightarrow> pdf_line list \<Rightarrow> pdf_item list \<times> render_item list
     \<Rightarrow> pdf_item list \<times> render_item list" where
  "lines_loop sx sy [] st = st"
| "lines_loop sx sy (l # ls) st =
     lines_loop sx sy ls
       (spans_loop sx sy (case line_spans l of None \<Rightarrow> [] | Some ss \<Rightarrow> ss) st)"

fun blocks_loop ::
  "real \<Rightarrow> real \<Rightarrow> pdf_block list \<Rightarrow> pdf_item list \<times> render_item list
     \<Rightarrow> pdf_item list \<times> render_item list" where
  "blocks_loop sx sy [] st = st"
| "blocks_loop sx sy (b # bs) st =
     blocks_loop sx sy bs
       (if block_type b \<noteq> Some 0 then st
        else lines_loop sx sy (case block_lines b of None \<Rightarrow> [] | Some ls \<Rightarrow> ls) st)"

section \<open>Image block extraction (lines 259 to 268)\<close>

definition image_step :: "real \<Rightarrow> real \<Rightarrow> pdf_block \<Rightarrow> bbox_dict list \<Rightarrow> bbox_dict list" where
  "image_step sx sy b image_boxes =
     (if block_type b \<noteq> Some 1 then image_boxes
      else (case block_bbox b of
        None \<Rightarrow> image_boxes
      | Some bbox \<Rightarrow>
          if bbox = [] \<or> length bbox \<noteq> 4 then image_boxes
          else
            let x0 = bbox ! 0; y0 = bbox ! 1; x1 = bbox ! 2; y1 = bbox ! 3
            in image_boxes @ [bbox_to_dict (x0 * sx) (y0 * sy) (x1 * sx) (y1 * sy)]))"

fun images_loop :: "real \<Rightarrow> real \<Rightarrow> pdf_block list \<Rightarrow> bbox_dict list \<Rightarrow> bbox_dict list" where
  "images_loop sx sy [] image_boxes = image_boxes"
| "images_loop sx sy (b # bs) image_boxes =
     images_loop sx sy bs (image_step sx sy b image_boxes)"

section \<open>OCR boxes (lines 271 to 291)\<close>

text \<open>
  \<^verbatim>\<open>pytesseract.image_to_data(..., output_type=Output.DICT)\<close> gives a dictionary of
  columns. A cell is a number or, when the engine's text did not parse as one, a string.
\<close>

datatype pyval = PyNum real | PyStr pystr

record ocr_data =
  ocr_text :: "pystr list"
  ocr_conf :: "pyval list"
  ocr_left :: "pyval list"
  ocr_top :: "pyval list"
  ocr_width :: "pyval list"
  ocr_height :: "pyval list"

record ocr_box =
  ocr_x :: pyfl
  ocr_y :: pyfl
  ocr_w :: pyfl
  ocr_h :: pyfl
  ocr_cf :: pyfl

text \<open>\<^verbatim>\<open>xs[j]\<close> for \<open>j\<close> from a \<^verbatim>\<open>range\<close>: IndexError beyond the end.\<close>

definition list_index :: "'a list \<Rightarrow> nat \<Rightarrow> exn + 'a" where
  "list_index xs j = (if j < length xs then Inr (xs ! j) else Inl IndexError)"

text \<open>
  \<^verbatim>\<open>float(cell)\<close>. The parameter \<open>pyfloat\<close> is Python's \<^verbatim>\<open>float\<close> on a string: the
  float it returns, or the exception it raises. A number is converted to the float of
  the same value.
\<close>

definition py_float :: "(pystr \<Rightarrow> exn + pyfl) \<Rightarrow> pyval \<Rightarrow> exn + pyfl" where
  "py_float pyfloat cell = (case cell of PyNum r \<Rightarrow> Inr (Finite r) | PyStr s \<Rightarrow> pyfloat s)"

text \<open>
  \<^verbatim>\<open>conf_raw = str(cell).strip()\<close>, then \<^verbatim>\<open>float(conf_raw)\<close> inside
  \<^verbatim>\<open>try\<close>, with \<open>-1\<close> when that raises; the text \<^verbatim>\<open>str\<close> gives for a number reads
  back as that number.
\<close>

definition parse_conf :: "(pystr \<Rightarrow> exn + pyfl) \<Rightarrow> pyval \<Rightarrow> pyfl" where
  "parse_conf pyfloat cell =
     (case cell of
        PyNum r \<Rightarrow> Finite r
      | PyStr s \<Rightarrow> (case pyfloat (strip s) of Inl e \<Rightarrow> Finite (- 1) | Inr v \<Rightarrow> v))"

text \<open>\<^verbatim>\<open>float(ocr[column][j])\<close>, outside any \<^verbatim>\<open>try\<close>: the index first, then the
  conversion.\<close>

definition read_cell :: "(pystr \<Rightarrow> exn + pyfl) \<Rightarrow> pyval list \<Rightarrow> nat \<Rightarrow> exn + pyfl" where
  "read_cell pyfloat column j =
     (case list_index column j of Inl e \<Rightarrow> Inl e | Inr cell \<Rightarrow> py_float pyfloat cell)"

text \<open>One round of the loop: an exception, \<open>None\<close> for \<^verbatim>\<open>continue\<close>, or the box to
  append.\<close>

definition ocr_step ::
  "(pystr \<Rightarrow> exn + pyfl) \<Rightarrow> ocr_data \<Rightarrow> nat \<Rightarrow> exn + ocr_box option" where
  "ocr_step pyfloat ocr j =
     (case list_index (ocr_conf ocr) j of
        Inl e \<Rightarrow> Inl e
      | Inr cell \<Rightarrow>
          let conf = parse_conf pyfloat cell in
          if fl_less conf (Finite 0) then Inr None
          else
            (case read_cell pyfloat (ocr_left ocr) j of
               Inl e \<Rightarrow> Inl e
             | Inr l \<Rightarrow>
            (case read_cell pyfloat (ocr_top ocr) j of
               Inl e \<Rightarrow> Inl e
             | Inr t \<Rightarrow>
            (case read_cell pyfloat (ocr_width ocr) j of
               Inl e \<Rightarrow> Inl e
             | Inr w \<Rightarrow>
            (case read_cell pyfloat (ocr_height ocr) j of
               Inl e \<Rightarrow> Inl e
             | Inr h \<Rightarrow>
                 if fl_le w (Finite 1) \<or> fl_le h (Finite 1) then Inr None
                 else Inr (Some \<lparr>ocr_x = l, ocr_y = t, ocr_w = w, ocr_h = h,
                                  ocr_cf = conf\<rparr>))))))"

fun ocr_loop ::
  "(pystr \<Rightarrow> exn + pyfl) \<Rightarrow> ocr_data \<Rightarrow> nat list \<Rightarrow> ocr_box list \<Rightarrow> exn + ocr_box list" where
  "ocr_loop pyfloat ocr [] ocr_boxes = Inr ocr_boxes"
| "ocr_loop pyfloat ocr (j # js) ocr_boxes =
     (case ocr_step pyfloat ocr j of
        Inl e \<Rightarrow> Inl e
      | Inr None \<Rightarrow> ocr_loop pyfloat ocr js ocr_boxes
      | Inr (Some box) \<Rightarrow> ocr_loop pyfloat ocr js (ocr_boxes @ [box]))"

section \<open>The per-page scale factors (lines 225 to 228)\<close>

record page_in =
  rect_width :: real
  rect_height :: real
  get_pixmap :: "exn + pixmap"
  get_text :: text_dict
  image_to_data_result :: "exn + ocr_data"

text \<open>\<^verbatim>\<open>sx = float(pix.width) / page_w if page_w else 1.0\<close>: a float is falsy exactly when
  it is zero.\<close>

definition page_scale :: "real \<Rightarrow> real \<Rightarrow> pixmap \<Rightarrow> real \<times> real" where
  "page_scale page_w page_h pix =
     (if page_w \<noteq> 0 then real_of_int (pix_width pix) / page_w else 1,
      if page_h \<noteq> 0 then real_of_int (pix_height pix) / page_h else 1)"

section \<open>Processing one page (the body of the loop at line 218)\<close>

record page_record =
  pageNumber :: nat
  renderWidth :: int
  renderHeight :: int
  imagePath :: pystr
  items :: "render_item list"
  ocrBoxes :: "ocr_box list"
  imageBoxes :: "bbox_dict list"

record text_layer =
  tl_page :: nat
  tl_items :: "pdf_item list"

record manifest =
  sourceFile :: pystr
  pageCount :: nat
  pages :: "page_record list"

text \<open>The files of the output directory, by their path relative to it. Creating the
  directories and writing a file are taken to succeed.\<close>

datatype out_file =
    PngFile pixmap
  | ManifestFile manifest
  | TextLayerFile "text_layer list"
  | HtmlFile pystr

type_synonym fs = "pystr \<rightharpoonup> out_file"

text \<open>\<^verbatim>\<open>f"{page_no:03d}"\<close>: decimal, padded with zeros to three digits at least.\<close>

fun str_of_nat :: "nat \<Rightarrow> pystr" where
  "str_of_nat n = (if n < 10 then [48 + n] else str_of_nat (n div 10) @ [48 + n mod 10])"

declare str_of_nat.simps [simp del]

definition fmt_03d :: "nat \<Rightarrow> pystr" where
  "fmt_03d n = replicate (3 - length (str_of_nat n)) 48 @ str_of_nat n"

text \<open>\<^verbatim>\<open>image_name.replace("\\\\", "/")\<close>: the Python literal is two backslashes (code
  point 92); each occurrence, from the left, becomes a slash (47).\<close>

fun replace_backslashes :: "pystr \<Rightarrow> pystr" where
  "replace_backslashes (a # b # cs) =
     (if a = 92 \<and> b = 92 then 47 # replace_backslashes cs
      else a # replace_backslashes (b # cs))"
| "replace_backslashes cs = cs"

definition process_page ::
  "(pystr \<Rightarrow> exn + pyfl) \<Rightarrow> fs \<Rightarrow> nat \<Rightarrow> page_in
     \<Rightarrow> fs \<times> (exn + page_record \<times> text_layer)" where
  "process_page pyfloat outdir i page =
     (let page_no = i + 1 in
      (case get_pixmap page of
        Inl e \<Rightarrow> (outdir, Inl e)
      | Inr pix \<Rightarrow>
          let image_name = of_ascii ''assets/page_'' @ fmt_03d page_no @ of_ascii ''.png'';
              outdir1 = outdir(image_name \<mapsto> PngFile pix);
              page_w = rect_width page;
              page_h = rect_height page;
              sx = fst (page_scale page_w page_h pix);
              sy = snd (page_scale page_w page_h pix);
              blocks = (case td_blocks (get_text page) of None \<Rightarrow> [] | Some bs \<Rightarrow> bs);
              span_items = blocks_loop sx sy blocks ([], []);
              span_items_pdf = fst span_items;
              span_items_render = snd span_items;
              image_boxes = images_loop sx sy blocks []
          in (case image_to_data_result page of
               Inl e \<Rightarrow> (outdir1, Inl e)
             | Inr ocr \<Rightarrow>
                 (case ocr_loop pyfloat ocr [0..<length (ocr_text ocr)] [] of
                    Inl e \<Rightarrow> (outdir1, Inl e)
                  | Inr ocr_boxes \<Rightarrow>
                      (outdir1,
                       Inr (\<lparr>pageNumber = page_no,
                             renderWidth = pix_width pix,
                             renderHeight = pix_height pix,
                             imagePath = replace_backslashes image_name,
                             items = span_items_render,
                             ocrBoxes = ocr_boxes,
                             imageBoxes = image_boxes\<rparr>,
                            \<lparr>tl_page = page_no, tl_items = span_items_pdf\<rparr>))))))"

section \<open>The pipeline (lines 204 to 316)\<close>

fun pages_loop ::
  "(pystr \<Rightarrow> exn + pyfl) \<Rightarrow> (nat \<times> page_in) list
     \<Rightarrow> fs \<times> page_record list \<times> text_layer list
     \<Rightarrow> fs \<times> (exn + page_record list \<times> text_layer list)" where
  "pages_loop pyfloat [] (outdir, ps, text_layers) = (outdir, Inr (ps, text_layers))"
| "pages_loop pyfloat ((i, page) # rest) (outdir, ps, text_layers) =
     (case process_page pyfloat outdir i page of
        (outdir1, Inl e) \<Rightarrow> (outdir1, Inl e)
      | (outdir1, Inr (record, layer)) \<Rightarrow>
          pages_loop pyfloat rest (outdir1, ps @ [record], text_layers @ [layer]))"

text \<open>\<^verbatim>\<open>html.escape(title)\<close>, the only part of \<^verbatim>\<open>index.html\<close> that varies; the fixed
  template text around it is left out.\<close>

fun html_escape :: "pystr \<Rightarrow> pystr" where
  "html_escape [] = []"
| "html_escape (c # cs) =
     (if c = 38 then of_ascii ''&amp;''
      else if c = 60 then of_ascii ''&lt;''
      else if c = 62 then of_ascii ''&gt;''
      else if c = 34 then of_ascii ''&quot;''
      else if c = 39 then of_ascii ''&#x27;''
      else [c]) @ html_escape cs"

definition write_template_html :: "fs \<Rightarrow> pystr \<Rightarrow> fs" where
  "write_template_html outdir title = outdir(of_ascii ''index.html'' \<mapsto> HtmlFile (html_escape title))"

text \<open>The values of the small dictionaries the script prints.\<close>

datatype jval = JBool bool | JInt int | JStr pystr

text \<open>
  \<open>opened\<close> is what \<^verbatim>\<open>fitz.open(str(input_pdf))\<close> gives: an exception, or the pages of
  the document in order. \<open>tesseract_path\<close> only selects the OCR binary, whose results are
  part of each page's input. The float parser of Python, \<open>pyfloat\<close>, is a parameter.
\<close>

definition run_pipeline ::
  "(pystr \<Rightarrow> exn + pyfl) \<Rightarrow> fs \<Rightarrow> (exn + page_in list) \<Rightarrow> pystr \<Rightarrow> pystr
     \<Rightarrow> fs \<times> (exn + (string \<times> jval) list)" where
  "run_pipeline pyfloat outdir opened original_name tesseract_path =
     (case opened of
        Inl e \<Rightarrow> (outdir, Inl e)
      | Inr doc \<Rightarrow>
          (case pages_loop pyfloat (enumerate 0 doc) (outdir, [], []) of
             (outdir1, Inl e) \<Rightarrow> (outdir1, Inl e)
           | (outdir1, Inr (ps, text_layers)) \<Rightarrow>
               let manifest = \<lparr>sourceFile = original_name, pageCount = length ps, pages = ps\<rparr>;
                   outdir2 = outdir1(of_ascii ''manifest.json'' \<mapsto> ManifestFile manifest);
                   outdir3 = outdir2(of_ascii ''text-layer.json'' \<mapsto> TextLayerFile text_layers);
                   outdir4 = write_template_html outdir3 original_name
               in (outdir4,
                   Inr [(''ok'', JBool True), (''pages'', JInt (int (length ps))),
                        (''preview'', JStr (of_ascii ''index.html''))])))"

section \<open>The invocation boundary (the try block of \<^verbatim>\<open>main\<close>, lines 327 to 342)\<close>

text \<open>What the caller observes, in order: a printed JSON object, an exception that leaves
  \<^verbatim>\<open>main\<close>. \<open>format_exc\<close> stands for \<^verbatim>\<open>traceback.format_exc()\<close>.\<close>

datatype event = Print "(string \<times> jval) list" | Reraise exn

definition main ::
  "(pystr \<Rightarrow> exn + pyfl) \<Rightarrow> (exn \<Rightarrow> pystr) \<Rightarrow> fs \<Rightarrow> (exn + page_in list) \<Rightarrow> pystr \<Rightarrow> pystr
     \<Rightarrow> fs \<times> event list" where
  "main pyfloat format_exc outdir opened original_name tesseract =
     (case run_pipeline pyfloat outdir opened original_name tesseract of
        (outdir1, Inr result) \<Rightarrow> (outdir1, [Print result])
      | (outdir1, Inl exc) \<Rightarrow>
          (outdir1,
           [Print [(''ok'', JBool False), (''error'', JStr (str_exn exc)),
                   (''traceback'', JStr (format_exc exc))],
            Reraise exc]))"

text \<open>The interpreter ends with status 1 when an exception leaves \<^verbatim>\<open>main\<close>, with 0
  otherwise.\<close>

fun exit_status :: "event list \<Rightarrow> nat" where
  "exit_status [] = 0"
| "exit_status (Print _ # evs) = exit_status evs"
| "exit_status (Reraise _ # evs) = 1"

section \<open>Notions used to state the properties\<close>

text \<open>The spans of a page in the order the nested loops visit them: the blocks of type 0,
  their lines, the spans of each line.\<close>

definition text_spans :: "text_dict \<Rightarrow> pdf_span list" where
  "text_spans td =
     concat (map (\<lambda>b. if block_type b \<noteq> Some 0 then []
                       else concat (map (\<lambda>l. case line_spans l of None \<Rightarrow> [] | Some ss \<Rightarrow> ss)
                                        (case block_lines b of None \<Rightarrow> [] | Some ls \<Rightarrow> ls)))
                 (case td_blocks td of None \<Rightarrow> [] | Some bs \<Rightarrow> bs))"

text \<open>A span gets past both \<^verbatim>\<open>continue\<close> statements of the loop body.\<close>

definition span_emitted :: "pdf_span \<Rightarrow> bool" where
  "span_emitted s \<longleftrightarrow> span_text_of s \<noteq> [] \<and> length (span_bbox_of s) = 4"

text \<open>The two entries an emitted span adds: to the text layer, to the manifest.\<close>

definition pdf_item_of :: "pdf_span \<Rightarrow> pdf_item" where
  "pdf_item_of s =
     \<lparr>pdf_text = span_text_of s,
      pdf_bbox = [span_bbox_of s ! 0, span_bbox_of s ! 1, span_bbox_of s ! 2, span_bbox_of s ! 3],
      pdf_size = span_size_of s, pdf_font = span_font_of s\<rparr>"

definition render_item_of :: "real \<Rightarrow> real \<Rightarrow> pdf_span \<Rightarrow> render_item" where
  "render_item_of sx sy s =
     \<lparr>box_x = span_bbox_of s ! 0 * sx, box_y = span_bbox_of s ! 1 * sy,
      box_w = max 0 (span_bbox_of s ! 2 * sx - span_bbox_of s ! 0 * sx),
      box_h = max 0 (span_bbox_of s ! 3 * sy - span_bbox_of s ! 1 * sy),
      item_text = span_text_of s, item_size = span_size_of s, item_font = span_font_of s\<rparr>"

text \<open>An image block gets past both \<^verbatim>\<open>continue\<close> statements, and the box it adds.\<close>

definition image_kept :: "pdf_block \<Rightarrow> bool" where
  "image_kept b \<longleftrightarrow>
     block_type b = Some 1 \<and> (case block_bbox b of None \<Rightarrow> False | Some bbox \<Rightarrow> length bbox = 4)"

definition image_box_of :: "real \<Rightarrow> real \<Rightarrow> pdf_block \<Rightarrow> bbox_dict" where
  "image_box_of sx sy b =
     (let bbox = (case block_bbox b of None \<Rightarrow> [] | Some bbox \<Rightarrow> bbox) in
      \<lparr>box_x = bbox ! 0 * sx, box_y = bbox ! 1 * sy,
       box_w = max 0 (bbox ! 2 * sx - bbox ! 0 * sx),
       box_h = max 0 (bbox ! 3 * sy - bbox ! 1 * sy)\<rparr>)"

text \<open>The float read from cell \<open>j\<close> of a column, for use where reading it raises
  nothing (NaN stands in where it does).\<close>

definition cell_float :: "(pystr \<Rightarrow> exn + pyfl) \<Rightarrow> pyval list \<Rightarrow> nat \<Rightarrow> pyfl" where
  "cell_float pyfloat column j =
     (case read_cell pyfloat column j of Inl e \<Rightarrow> NaN | Inr v \<Rightarrow> v)"

text \<open>An OCR fragment is dropped by one of the two \<^verbatim>\<open>continue\<close> statements, and the box
  a surviving fragment adds.\<close>

definition ocr_discarded :: "(pystr \<Rightarrow> exn + pyfl) \<Rightarrow> ocr_data \<Rightarrow> nat \<Rightarrow> bool" where
  "ocr_discarded pyfloat ocr j \<longleftrightarrow>
     fl_less (parse_conf pyfloat (ocr_conf ocr ! j)) (Finite 0) \<or>
     fl_le (cell_float pyfloat (ocr_width ocr) j) (Finite 1) \<or>
     fl_le (cell_float pyfloat (ocr_height ocr) j) (Finite 1)"

definition ocr_box_of :: "(pystr \<Rightarrow> exn + pyfl) \<Rightarrow> ocr_data \<Rightarrow> nat \<Rightarrow> ocr_box" where
  "ocr_box_of pyfloat ocr j =
     \<lparr>ocr_x = cell_float pyfloat (ocr_left ocr) j, ocr_y = cell_float pyfloat (ocr_top ocr) j,
      ocr_w = cell_float pyfloat (ocr_width ocr) j, ocr_h = cell_float pyfloat (ocr_height ocr) j,
      ocr_cf = parse_conf pyfloat (ocr_conf ocr ! j)\<rparr>"

text \<open>Cell \<open>j\<close> of a column exists and \<^verbatim>\<open>float\<close> reads it.\<close>

definition cell_ok :: "(pystr \<Rightarrow> exn + pyfl) \<Rightarrow> pyval list \<Rightarrow> nat \<Rightarrow> bool" where
  "cell_ok pyfloat column j \<longleftrightarrow>
     (case read_cell pyfloat column j of Inl e \<Rightarrow> False | Inr v \<Rightarrow> True)"

text \<open>For every index the loop visits, the confidence column has a cell and each
  geometry column has a cell that \<^verbatim>\<open>float\<close> reads.\<close>

definition ocr_columns_ok :: "(pystr \<Rightarrow> exn + pyfl) \<Rightarrow> ocr_data \<Rightarrow> bool" where
  "ocr_columns_ok pyfloat ocr \<longleftrightarrow>
     list_all (\<lambda>j. j < length (ocr_conf ocr) \<and>
                   cell_ok pyfloat (ocr_left ocr) j \<and> cell_ok pyfloat (ocr_top ocr) j \<and>
                   cell_ok pyfloat (ocr_width ocr) j \<and> cell_ok pyfloat (ocr_height ocr) j)
       [0..<length (ocr_text ocr)]"

text \<open>The manifest record and the text-layer record of page \<open>i\<close> (counted from 0), given
  the raster image and the OCR result the engines returned for it.\<close>

definition page_record_of ::
  "(pystr \<Rightarrow> exn + pyfl) \<Rightarrow> nat \<Rightarrow> page_in \<Rightarrow> pixmap \<Rightarrow> ocr_data \<Rightarrow> page_record" where
  "page_record_of pyfloat i page pix ocr =
     \<lparr>pageNumber = i + 1, renderWidth = pix_width pix, renderHeight = pix_height pix,
      imagePath = replace_backslashes
        (of_ascii ''assets/page_'' @ fmt_03d (i + 1) @ of_ascii ''.png''),
      items = map (render_item_of
                     (fst (page_scale (rect_width page) (rect_height page) pix))
                     (snd (page_scale (rect_width page) (rect_height page) pix)))
                (filter span_emitted (text_spans (get_text page))),
      ocrBoxes = map (ocr_box_of pyfloat ocr)
        (filter (\<lambda>j. \<not> ocr_discarded pyfloat ocr j) [0..<length (ocr_text ocr)]),
      imageBoxes = map (image_box_of
                     (fst (page_scale (rect_width page) (rect_height page) pix))
                     (snd (page_scale (rect_width page) (rect_height page) pix)))
        (filter image_kept
           (case td_blocks (get_text page) of None \<Rightarrow> [] | Some bs \<Rightarrow> bs))\<rparr>"

definition text_layer_of :: "nat \<Rightarrow> page_in \<Rightarrow> text_layer" where
  "text_layer_of i page =
     \<lparr>tl_page = i + 1,
      tl_items = map pdf_item_of (filter span_emitted (text_spans (get_text page)))\<rparr>"

text \<open>The engines succeed on a page and the OCR columns are complete and readable.\<close>

definition page_ok :: "(pystr \<Rightarrow> exn + pyfl) \<Rightarrow> page_in \<Rightarrow> bool" where
  "page_ok pyfloat page \<longleftrightarrow>
     (case get_pixmap page of Inl e \<Rightarrow> False | Inr pix \<Rightarrow>
        (case image_to_data_result page of
           Inl e \<Rightarrow> False
         | Inr ocr \<Rightarrow> ocr_columns_ok pyfloat ocr))"

section \<open>A worked example\<close>

text \<open>A float parser for the examples: it reads optionally signed decimal integers and
  the text \<^verbatim>\<open>nan\<close>, as Python's \<^verbatim>\<open>float\<close> does, and refuses every other text with a
  \<^verbatim>\<open>ValueError\<close>.\<close>

fun digits_val :: "pystr \<Rightarrow> nat \<Rightarrow> nat option" where
  "digits_val [] acc = Some acc"
| "digits_val (c # cs) acc =
     (if 48 \<le> c \<and> c \<le> 57 then digits_val cs (10 * acc + (c - 48)) else None)"

definition sample_decimal :: "pystr \<Rightarrow> real option" where
  "sample_decimal s =
     (case s of
        [] \<Rightarrow> None
      | c # cs \<Rightarrow>
          if c = 45 then (if cs = [] then None else map_option (\<lambda>n. - real n) (digits_val cs 0))
          else map_option real (digits_val s 0))"

definition sample_pyfloat :: "pystr \<Rightarrow> exn + pyfl" where
  "sample_pyfloat s =
     (if s = of_ascii ''nan'' then Inr NaN
      else case sample_decimal s of
        None \<Rightarrow> Inl (ValueError (of_ascii ''could not convert string to float: '' @ [39] @ s @ [39]))
      | Some r \<Rightarrow> Inr (Finite r))"

text \<open>
  A US Letter page rendered at zoom 2 with four spans (one padded with blanks, one blank,
  one with a bbox of three numbers, one without bbox), three blocks of type 1 and four
  OCR fragments; then a degenerate empty page.
\<close>

definition example_spans :: "pdf_span list" where
  "example_spans =
     [\<lparr>span_text = Some (of_ascii '' Hi ''), span_bbox = Some [100, 100, 200, 120],
       span_size = Some 12, span_font = Some (of_ascii ''F'')\<rparr>,
      \<lparr>span_text = Some (of_ascii ''  ''), span_bbox = Some [0, 0, 5, 5],
       span_size = Some 12, span_font = Some (of_ascii ''F'')\<rparr>,
      \<lparr>span_text = Some (of_ascii ''Bad''), span_bbox = Some [1, 2, 3],
       span_size = Some 12, span_font = Some (of_ascii ''F'')\<rparr>,
      \<lparr>span_text = Some (of_ascii ''No''), span_bbox = None,
       span_size = None, span_font = None\<rparr>]"

definition example_ocr :: ocr_data where
  "example_ocr =
     \<lparr>ocr_text = [of_ascii ''a'', of_ascii ''b'', of_ascii ''c'', of_ascii ''d''],
      ocr_conf = [PyNum 95, PyStr (of_ascii ''-1''), PyStr (of_ascii '' 80 ''),
                  PyStr (of_ascii ''x'')],
      ocr_left = [PyNum 5, PyNum 6, PyNum 7, PyNum 8],
      ocr_top = [PyNum 1, PyNum 2, PyNum 3, PyNum 4],
      ocr_width = [PyNum 50, PyNum 40, PyNum 1, PyNum 30],
      ocr_height = [PyNum 12, PyStr (of_ascii ''12''), PyNum 12, PyNum 12]\<rparr>"




definition example_page :: page_in where
  "example_page =
     \<lparr>rect_width = 612, rect_height = 792,
      get_pixmap = Inr \<lparr>pix_width = 1224, pix_height = 1584, pix_samples = []\<rparr>,
      get_text = \<lparr>td_blocks = Some
        [\<lparr>block_type = Some 0, block_lines = Some [\<lparr>line_spans = Some example_spans\<rparr>],
          block_bbox = None\<rparr>,
         \<lparr>block_type = Some 1, block_lines = None, block_bbox = Some [10, 20, 110, 220]\<rparr>,
         \<lparr>block_type = Some 1, block_lines = None, block_bbox = Some [1, 2, 3]\<rparr>]\<rparr>,
      image_to_data_result = Inr example_ocr\<rparr>"

definition example_blank_page :: page_in where
  "example_blank_page =
     \<lparr>rect_width = 0, rect_height = 0,
      get_pixmap = Inr \<lparr>pix_width = 0, pix_height = 0, pix_samples = []\<rparr>,
      get_text = \<lparr>td_blocks = None\<rparr>,
      image_to_data_result = Inr
        \<lparr>ocr_text = [], ocr_conf = [], ocr_left = [], ocr_top = [], ocr_width = [],
         ocr_height = []\<rparr>\<rparr>"

definition example_doc :: "page_in list" where
  "example_doc = [example_page, example_blank_page]"

text \<open>The same document rendered at zoom 1.\<close>

definition example_doc_zoom1 :: "page_in list" where
  "example_doc_zoom1 =
     [example_page\<lparr>get_pixmap := Inr \<lparr>pix_width = 612, pix_height = 792, pix_samples = []\<rparr>\<rparr>,
      example_blank_page]"


definition example_manifest :: manifest where
  "example_manifest =
     \<lparr>sourceFile = of_ascii ''a.pdf'', pageCount = 2,
      pages =
        [\<lparr>pageNumber = 1, renderWidth = 1224, renderHeight = 1584,
          imagePath = of_ascii ''assets/page_001.png'',
          items =
            [\<lparr>box_x = 200, box_y = 200, box_w = 200, box_h = 40,
              item_text = of_ascii ''Hi'', item_size = 12, item_font = of_ascii ''F''\<rparr>,
             \<lparr>box_x = 0, box_y = 0, box_w = 0, box_h = 0,
              item_text = of_ascii ''No'', item_size = 0, item_font = []\<rparr>],
          ocrBoxes = [\<lparr>ocr_x = Finite 5, ocr_y = Finite 1, ocr_w = Finite 50,
                       ocr_h = Finite 12, ocr_cf = Finite 95\<rparr>],
          imageBoxes = [\<lparr>box_x = 20, box_y = 40, box_w = 200, box_h = 400\<rparr>]\<rparr>,
         \<lparr>pageNumber = 2, renderWidth = 0, renderHeight = 0,
          imagePath = of_ascii ''assets/page_002.png'',
          items = [], ocrBoxes = [], imageBoxes = []\<rparr>]\<rparr>"

definition example_text_layers :: "text_layer list" where
  "example_text_layers =
     [\<lparr>tl_page = 1,
       tl_items =
         [\<lparr>pdf_text = of_ascii ''Hi'', pdf_bbox = [100, 100, 200, 120], pdf_size = 12,
           pdf_font = of_ascii ''F''\<rparr>,
          \<lparr>pdf_text = of_ascii ''No'', pdf_bbox = [0, 0, 0, 0], pdf_size = 0,
           pdf_font = []\<rparr>]\<rparr>,
      \<lparr>tl_page = 2, tl_items = []\<rparr>]"

definition example_outdir :: fs where
  "example_outdir =
     [of_ascii ''assets/page_001.png'' \<mapsto>
        PngFile \<lparr>pix_width = 1224, pix_height = 1584, pix_samples = []\<rparr>,
      of_ascii ''assets/page_002.png'' \<mapsto>
        PngFile \<lparr>pix_width = 0, pix_height = 0, pix_samples = []\<rparr>,
      of_ascii ''manifest.json'' \<mapsto> ManifestFile example_manifest,
      of_ascii ''text-layer.json'' \<mapsto> TextLayerFile example_text_layers,
      of_ascii ''index.html'' \<mapsto> HtmlFile (of_ascii ''a.pdf'')]"

definition example_result :: "(string \<times> jval) list" where
  "example_result =
     [(''ok'', JBool True), (''pages'', JInt 2), (''preview'', JStr (of_ascii ''index.html''))]"

section \<open>The loops as maps and filters\<close>

lemma span_step_eq:
  "span_step sx sy s st =
     (if span_emitted s then (fst st @ [pdf_item_of s], snd st @ [render_item_of sx sy s])
      else st)"
  by (simp add: span_step_def span_emitted_def pdf_item_of_def render_item_of_def Let_def
        bbox_to_dict_def bbox_dict.defs render_item.defs)

lemma spans_loop_eq:
  "spans_loop sx sy ss st =
     (fst st @ map pdf_item_of (filter span_emitted ss),
      snd st @ map (render_item_of sx sy) (filter span_emitted ss))"
  by (induction ss arbitrary: st) (simp_all add: span_step_eq)

lemma spans_loop_append:
  "spans_loop sx sy (xs @ ys) st = spans_loop sx sy ys (spans_loop sx sy xs st)"
  by (induction xs arbitrary: st) simp_all

lemma lines_loop_eq:
  "lines_loop sx sy ls st =
     spans_loop sx sy
       (concat (map (\<lambda>l. case line_spans l of None \<Rightarrow> [] | Some ss \<Rightarrow> ss) ls)) st"
  by (induction ls arbitrary: st) (simp_all add: spans_loop_append)

lemma blocks_loop_eq:
  "blocks_loop sx sy bs st =
     spans_loop sx sy
       (concat (map (\<lambda>b. if block_type b \<noteq> Some 0 then []
                       else concat (map (\<lambda>l. case line_spans l of None \<Rightarrow> [] | Some ss \<Rightarrow> ss)
                                        (case block_lines b of None \<Rightarrow> [] | Some ls \<Rightarrow> ls))) bs))
       st"
proof (induction bs arbitrary: st)
  case Nil
  show ?case by simp
next
  case (Cons b bs)
  show ?case
  proof (cases "block_type b = Some 0")
    case True
    then show ?thesis
      by (simp add: Cons.IH lines_loop_eq spans_loop_append)
  next
    case False
    then show ?thesis
      by (simp add: Cons.IH)
  qed
qed

lemma blocks_loop_text_spans:
  "blocks_loop sx sy (case td_blocks td of None \<Rightarrow> [] | Some bs \<Rightarrow> bs) ([], []) =
     (map pdf_item_of (filter span_emitted (text_spans td)),
      map (render_item_of sx sy) (filter span_emitted (text_spans td)))"
  by (simp add: blocks_loop_eq spans_loop_eq text_spans_def)

lemma image_step_eq:
  "image_step sx sy b acc = (if image_kept b then acc @ [image_box_of sx sy b] else acc)"
  by (auto simp: image_step_def image_kept_def image_box_of_def Let_def bbox_to_dict_def
        split: option.splits)

lemma images_loop_eq:
  "images_loop sx sy bs acc = acc @ map (image_box_of sx sy) (filter image_kept bs)"
  by (induction bs arbitrary: acc) (simp_all add: image_step_eq)

lemma read_cell_Inr:
  assumes "read_cell pyfloat column j = Inr v"
  shows "j < length column \<and> py_float pyfloat (column ! j) = Inr v \<and>
         cell_float pyfloat column j = v"
  using assms
  by (auto simp: read_cell_def list_index_def cell_float_def split: if_splits)

lemma cell_ok_read:
  assumes "cell_ok pyfloat column j"
  shows "read_cell pyfloat column j = Inr (cell_float pyfloat column j)"
  using assms by (auto simp: cell_ok_def cell_float_def split: sum.splits)

lemma ocr_step_in_range:
  assumes "j < length (ocr_conf ocr)" "cell_ok pyfloat (ocr_left ocr) j"
    "cell_ok pyfloat (ocr_top ocr) j" "cell_ok pyfloat (ocr_width ocr) j"
    "cell_ok pyfloat (ocr_height ocr) j"
  shows "ocr_step pyfloat ocr j =
           Inr (if ocr_discarded pyfloat ocr j then None else Some (ocr_box_of pyfloat ocr j))"
  using assms(1) cell_ok_read [OF assms(2)] cell_ok_read [OF assms(3)]
    cell_ok_read [OF assms(4)] cell_ok_read [OF assms(5)]
  by (simp add: ocr_step_def list_index_def Let_def ocr_discarded_def ocr_box_of_def)

lemma ocr_step_Inr:
  assumes "ocr_step pyfloat ocr j = Inr r"
  shows "r = (if ocr_discarded pyfloat ocr j then None else Some (ocr_box_of pyfloat ocr j))"
  using assms
  by (auto simp: ocr_step_def list_index_def Let_def ocr_discarded_def ocr_box_of_def
        cell_float_def split: if_splits sum.splits)

lemma ocr_loop_Inr:
  assumes "ocr_loop pyfloat ocr js acc = Inr bs"
  shows "bs = acc @ map (ocr_box_of pyfloat ocr) (filter (\<lambda>j. \<not> ocr_discarded pyfloat ocr j) js)"
  using assms
proof (induction js arbitrary: acc)
  case Nil
  then show ?case by simp
next
  case (Cons j js)
  from Cons.prems obtain r where r: "ocr_step pyfloat ocr j = Inr r"
    by (cases "ocr_step pyfloat ocr j") simp_all
  note eq = ocr_step_Inr [OF r]
  show ?case
  proof (cases "ocr_discarded pyfloat ocr j")
    case True
    with Cons.prems r eq have "ocr_loop pyfloat ocr js acc = Inr bs" by simp
    from Cons.IH [OF this] True show ?thesis by simp
  next
    case False
    with Cons.prems r eq
    have "ocr_loop pyfloat ocr js (acc @ [ocr_box_of pyfloat ocr j]) = Inr bs" by simp
    from Cons.IH [OF this] False show ?thesis by simp
  qed
qed

lemma ocr_step_Some:
  assumes "ocr_step pyfloat ocr j = Inr (Some b)"
  shows "j < length (ocr_conf ocr) \<and>
         read_cell pyfloat (ocr_left ocr) j = Inr (ocr_x b) \<and>
         read_cell pyfloat (ocr_top ocr) j = Inr (ocr_y b) \<and>
         read_cell pyfloat (ocr_width ocr) j = Inr (ocr_w b) \<and>
         read_cell pyfloat (ocr_height ocr) j = Inr (ocr_h b)"
  using assms
  by (auto simp: ocr_step_def list_index_def Let_def split: if_splits sum.splits)

lemma ocr_loop_steps:
  assumes "ocr_loop pyfloat ocr js acc = Inr bs" and "j \<in> set js"
  shows "\<exists>r. ocr_step pyfloat ocr j = Inr r"
  using assms
proof (induction js arbitrary: acc)
  case Nil
  then show ?case by simp
next
  case (Cons k js)
  from Cons.prems(1) obtain r where r: "ocr_step pyfloat ocr k = Inr r"
    by (cases "ocr_step pyfloat ocr k") simp_all
  show ?case
  proof (cases "j = k")
    case True
    with r show ?thesis by simp
  next
    case False
    with Cons.prems(2) have j: "j \<in> set js" by simp
    from Cons.prems(1) r obtain acc' where "ocr_loop pyfloat ocr js acc' = Inr bs"
      by (cases r) auto
    from Cons.IH [OF this j] show ?thesis .
  qed
qed

lemma ocr_loop_kept_in_range:
  assumes "ocr_loop pyfloat ocr js acc = Inr bs" and "j \<in> set js"
    and "\<not> ocr_discarded pyfloat ocr j"
  shows "j < length (ocr_conf ocr) \<and>
         read_cell pyfloat (ocr_left ocr) j = Inr (cell_float pyfloat (ocr_left ocr) j) \<and>
         read_cell pyfloat (ocr_top ocr) j = Inr (cell_float pyfloat (ocr_top ocr) j) \<and>
         read_cell pyfloat (ocr_width ocr) j = Inr (cell_float pyfloat (ocr_width ocr) j) \<and>
         read_cell pyfloat (ocr_height ocr) j = Inr (cell_float pyfloat (ocr_height ocr) j)"
proof -
  from ocr_loop_steps [OF assms(1,2)] obtain r where r: "ocr_step pyfloat ocr j = Inr r" ..
  from ocr_step_Inr [OF r] assms(3) have "r = Some (ocr_box_of pyfloat ocr j)" by simp
  with r have "ocr_step pyfloat ocr j = Inr (Some (ocr_box_of pyfloat ocr j))" by simp
  from ocr_step_Some [OF this] show ?thesis by (simp add: ocr_box_of_def)
qed

lemma ocr_loop_total:
  assumes "\<forall>j\<in>set js. j < length (ocr_conf ocr) \<and>
             cell_ok pyfloat (ocr_left ocr) j \<and> cell_ok pyfloat (ocr_top ocr) j \<and>
             cell_ok pyfloat (ocr_width ocr) j \<and> cell_ok pyfloat (ocr_height ocr) j"
  shows "ocr_loop pyfloat ocr js acc =
           Inr (acc @ map (ocr_box_of pyfloat ocr) (filter (\<lambda>j. \<not> ocr_discarded pyfloat ocr j) js))"
  using assms
  by (induction js arbitrary: acc) (simp_all add: ocr_step_in_range)

lemma ocr_columns_ok_total:
  assumes "ocr_columns_ok pyfloat ocr"
  shows "ocr_loop pyfloat ocr [0..<length (ocr_text ocr)] [] =
           Inr (map (ocr_box_of pyfloat ocr)
                  (filter (\<lambda>j. \<not> ocr_discarded pyfloat ocr j) [0..<length (ocr_text ocr)]))"
proof -
  from assms have "\<forall>j\<in>set [0..<length (ocr_text ocr)]. j < length (ocr_conf ocr) \<and>
             cell_ok pyfloat (ocr_left ocr) j \<and> cell_ok pyfloat (ocr_top ocr) j \<and>
             cell_ok pyfloat (ocr_width ocr) j \<and> cell_ok pyfloat (ocr_height ocr) j"
    unfolding ocr_columns_ok_def list_all_iff .
  from ocr_loop_total [OF this, of "[]"] show ?thesis by simp
qed



lemma process_page_Inr:
  assumes "process_page pyfloat outdir i page = (outdir1, Inr (r, l))"
  shows "\<exists>pix ocr.
           get_pixmap page = Inr pix \<and> image_to_data_result page = Inr ocr \<and>
           ocr_loop pyfloat ocr [0..<length (ocr_text ocr)] [] = Inr (ocrBoxes r) \<and>
           r = page_record_of pyfloat i page pix ocr \<and> l = text_layer_of i page"
proof -
  from assms obtain pix where pix: "get_pixmap page = Inr pix"
    by (cases "get_pixmap page") (simp_all add: process_page_def)
  from assms pix obtain ocr where ocr: "image_to_data_result page = Inr ocr"
    by (cases "image_to_data_result page") (simp_all add: process_page_def Let_def)
  from assms pix ocr obtain bs where
    bs: "ocr_loop pyfloat ocr [0..<length (ocr_text ocr)] [] = Inr bs"
    by (cases "ocr_loop pyfloat ocr [0..<length (ocr_text ocr)] []")
       (simp_all add: process_page_def Let_def)
  from ocr_loop_Inr [OF bs]
  have bs_eq: "bs = map (ocr_box_of pyfloat ocr)
                 (filter (\<lambda>j. \<not> ocr_discarded pyfloat ocr j) [0..<length (ocr_text ocr)])"
    by simp
  from assms pix ocr bs have
    "r = page_record_of pyfloat i page pix ocr" and "l = text_layer_of i page"
    by (simp_all add: process_page_def Let_def blocks_loop_text_spans images_loop_eq bs_eq
          page_record_of_def text_layer_of_def)
  moreover from this(1) bs bs_eq
  have "ocr_loop pyfloat ocr [0..<length (ocr_text ocr)] [] = Inr (ocrBoxes r)"
    by (simp add: page_record_of_def)
  ultimately show ?thesis using pix ocr by blast
qed

lemma process_page_snd_indep:
  "snd (process_page pyfloat outdirA i page) = snd (process_page pyfloat outdirB i page)"
  by (simp add: process_page_def Let_def split: sum.splits)

lemma pages_loop_snd_indep:
  "snd (pages_loop pyfloat xs (outdirA, ps, tls)) = snd (pages_loop pyfloat xs (outdirB, ps, tls))"
proof (induction xs arbitrary: outdirA outdirB ps tls)
  case Nil
  show ?case by simp
next
  case (Cons x xs)
  obtain i page where x: "x = (i, page)" by (cases x)
  obtain a ra where A: "process_page pyfloat outdirA i page = (a, ra)"
    by (cases "process_page pyfloat outdirA i page")
  obtain b rb where B: "process_page pyfloat outdirB i page = (b, rb)"
    by (cases "process_page pyfloat outdirB i page")
  from process_page_snd_indep [of pyfloat outdirA i page outdirB] A B have r: "ra = rb" by simp
  show ?case
  proof (cases rb)
    case (Inl e)
    with x A B r show ?thesis by simp
  next
    case (Inr v)
    obtain r l where v: "v = (r, l)" by (cases v)
    from x A B r Inr v Cons.IH [of a "ps @ [r]" "tls @ [l]" b] show ?thesis by simp
  qed
qed

lemma pages_loop_Inr:
  assumes "pages_loop pyfloat (enumerate k xs) (outdir, ps, tls) = (outdir1, Inr (ps1, tls1))"
  shows "\<exists>rs ls. ps1 = ps @ rs \<and> tls1 = tls @ ls \<and> length rs = length xs \<and> length ls = length xs \<and>
           (\<forall>j<length xs. \<exists>a b. process_page pyfloat a (k + j) (xs ! j) = (b, Inr (rs ! j, ls ! j)))"
  using assms
proof (induction xs arbitrary: k outdir ps tls)
  case Nil
  then show ?case by simp
next
  case (Cons x xs)
  obtain a ra where A: "process_page pyfloat outdir k x = (a, ra)"
    by (cases "process_page pyfloat outdir k x")
  from Cons.prems A obtain r l where ra: "ra = Inr (r, l)"
    by (cases ra) auto
  from Cons.prems A ra
  have "pages_loop pyfloat (enumerate (Suc k) xs) (a, ps @ [r], tls @ [l]) = (outdir1, Inr (ps1, tls1))"
    by simp
  from Cons.IH [OF this] obtain rs ls where
    IH: "ps1 = (ps @ [r]) @ rs" "tls1 = (tls @ [l]) @ ls" "length rs = length xs"
      "length ls = length xs"
      "\<forall>j<length xs. \<exists>a b. process_page pyfloat a (Suc k + j) (xs ! j) = (b, Inr (rs ! j, ls ! j))"
    by blast
  have "\<forall>j<length (x # xs). \<exists>a b.
          process_page pyfloat a (k + j) ((x # xs) ! j) = (b, Inr ((r # rs) ! j, (l # ls) ! j))"
  proof (intro allI impI)
    fix j assume j: "j < length (x # xs)"
    show "\<exists>a b. process_page pyfloat a (k + j) ((x # xs) ! j) = (b, Inr ((r # rs) ! j, (l # ls) ! j))"
    proof (cases j)
      case 0
      with A ra show ?thesis by auto
    next
      case (Suc j')
      with j IH(5) show ?thesis by simp
    qed
  qed
  with IH(1-4) show ?case
    by (intro exI [of _ "r # rs"] exI [of _ "l # ls"]) simp
qed

lemma run_pipeline_Inr:
  assumes "run_pipeline pyfloat outdir opened original_name tesseract_path = (outdir', Inr res)"
  shows "\<exists>doc outdir1 ps tls.
           opened = Inr doc \<and>
           pages_loop pyfloat (enumerate 0 doc) (outdir, [], []) = (outdir1, Inr (ps, tls)) \<and>
           outdir' = outdir1
             (of_ascii ''manifest.json'' \<mapsto>
                ManifestFile \<lparr>sourceFile = original_name, pageCount = length ps, pages = ps\<rparr>,
              of_ascii ''text-layer.json'' \<mapsto> TextLayerFile tls,
              of_ascii ''index.html'' \<mapsto> HtmlFile (html_escape original_name)) \<and>
           res = [(''ok'', JBool True), (''pages'', JInt (int (length ps))),
                  (''preview'', JStr (of_ascii ''index.html''))]"
proof -
  from assms obtain doc where doc: "opened = Inr doc"
    by (cases opened) (simp_all add: run_pipeline_def)
  obtain outdir1 r where L: "pages_loop pyfloat (enumerate 0 doc) (outdir, [], []) = (outdir1, r)"
    by (cases "pages_loop pyfloat (enumerate 0 doc) (outdir, [], [])")
  from assms doc L obtain ps tls where r: "r = Inr (ps, tls)"
    by (cases r) (auto simp: run_pipeline_def)
  from assms doc L r show ?thesis
    by (auto simp: run_pipeline_def Let_def write_template_html_def)
qed

lemma out_file_names:
  "of_ascii ''manifest.json'' \<noteq> of_ascii ''text-layer.json''"
  "of_ascii ''manifest.json'' \<noteq> of_ascii ''index.html''"
  "of_ascii ''text-layer.json'' \<noteq> of_ascii ''index.html''"
  by (simp_all add: of_ascii_def)

lemma run_pipeline_pages:
  assumes "run_pipeline pyfloat outdir (Inr doc) original_name tesseract_path = (outdir', Inr res)"
  shows "\<exists>ps tls.
           length ps = length doc \<and> length tls = length doc \<and>
           outdir' (of_ascii ''manifest.json'') =
             Some (ManifestFile \<lparr>sourceFile = original_name, pageCount = length ps, pages = ps\<rparr>) \<and>
           outdir' (of_ascii ''text-layer.json'') = Some (TextLayerFile tls) \<and>
           res = [(''ok'', JBool True), (''pages'', JInt (int (length ps))),
                  (''preview'', JStr (of_ascii ''index.html''))] \<and>
           (\<forall>p<length doc. \<exists>a b. process_page pyfloat a p (doc ! p) = (b, Inr (ps ! p, tls ! p)))"
proof -
  from run_pipeline_Inr [OF assms] obtain outdir1 ps tls where
    L: "pages_loop pyfloat (enumerate 0 doc) (outdir, [], []) = (outdir1, Inr (ps, tls))"
    and out: "outdir' = outdir1
             (of_ascii ''manifest.json'' \<mapsto>
                ManifestFile \<lparr>sourceFile = original_name, pageCount = length ps, pages = ps\<rparr>,
              of_ascii ''text-layer.json'' \<mapsto> TextLayerFile tls,
              of_ascii ''index.html'' \<mapsto> HtmlFile (html_escape original_name))"
    and res: "res = [(''ok'', JBool True), (''pages'', JInt (int (length ps))),
                  (''preview'', JStr (of_ascii ''index.html''))]"
    by blast
  from pages_loop_Inr [OF L] have
    P: "length ps = length doc" "length tls = length doc"
       "\<forall>p<length doc. \<exists>a b. process_page pyfloat a p (doc ! p) = (b, Inr (ps ! p, tls ! p))"
    by auto
  from out have "outdir' (of_ascii ''manifest.json'') =
      Some (ManifestFile \<lparr>sourceFile = original_name, pageCount = length ps, pages = ps\<rparr>)"
    "outdir' (of_ascii ''text-layer.json'') = Some (TextLayerFile tls)"
    by (simp_all add: out_file_names)
  with P res show ?thesis by blast
qed

lemma run_pipeline_page:
  assumes "run_pipeline pyfloat outdir (Inr doc) original_name tesseract_path = (outdir', Inr res)"
    and "p < length doc"
  shows "\<exists>ps tls pix ocr.
           length ps = length doc \<and> length tls = length doc \<and>
           outdir' (of_ascii ''manifest.json'') =
             Some (ManifestFile \<lparr>sourceFile = original_name, pageCount = length ps, pages = ps\<rparr>) \<and>
           outdir' (of_ascii ''text-layer.json'') = Some (TextLayerFile tls) \<and>
           get_pixmap (doc ! p) = Inr pix \<and> image_to_data_result (doc ! p) = Inr ocr \<and>
           ocr_loop pyfloat ocr [0..<length (ocr_text ocr)] [] = Inr (ocrBoxes (ps ! p)) \<and>
           ps ! p = page_record_of pyfloat p (doc ! p) pix ocr \<and>
           tls ! p = text_layer_of p (doc ! p)"
proof -
  from run_pipeline_pages [OF assms(1)] obtain ps tls where
    A: "length ps = length doc" "length tls = length doc"
      "outdir' (of_ascii ''manifest.json'') =
         Some (ManifestFile \<lparr>sourceFile = original_name, pageCount = length ps, pages = ps\<rparr>)"
      "outdir' (of_ascii ''text-layer.json'') = Some (TextLayerFile tls)"
    and B: "\<forall>p<length doc. \<exists>a b. process_page pyfloat a p (doc ! p) = (b, Inr (ps ! p, tls ! p))"
    by blast
  from B assms(2) obtain a b where
    "process_page pyfloat a p (doc ! p) = (b, Inr (ps ! p, tls ! p))"
    by blast
  from process_page_Inr [OF this] A show ?thesis by blast
qed

section \<open>The worked example, evaluated\<close>

lemma fmt_03d_small:
  "fmt_03d (Suc 0) = of_ascii ''001''" "fmt_03d (Suc (Suc 0)) = of_ascii ''002''"
  by (simp_all add: fmt_03d_def str_of_nat.simps of_ascii_def numeral_2_eq_2)

lemma strip_examples:
  "strip (of_ascii '' Hi '') = of_ascii ''Hi''"
  "strip (of_ascii ''  '') = []"
  "strip (of_ascii ''Bad'') = of_ascii ''Bad''"
  "strip (of_ascii ''No'') = of_ascii ''No''"
  "strip (of_ascii ''-1'') = of_ascii ''-1''"
  "strip (of_ascii '' 80 '') = of_ascii ''80''"
  "strip (of_ascii ''x'') = of_ascii ''x''"
  by (simp_all add: strip_def of_ascii_def py_isspace_def)

lemma sample_pyfloat_examples:
  "sample_pyfloat (of_ascii ''-1'') = Inr (Finite (- 1))"
  "sample_pyfloat (of_ascii ''80'') = Inr (Finite 80)"
  "sample_pyfloat (of_ascii ''12'') = Inr (Finite 12)"
  "sample_pyfloat (of_ascii ''nan'') = Inr NaN"
  "sample_pyfloat (of_ascii ''x'') =
     Inl (ValueError (of_ascii ''could not convert string to float: '' @ [39] @ of_ascii ''x'' @ [39]))"
  by (simp_all add: sample_pyfloat_def sample_decimal_def of_ascii_def)

lemma example_ocr_run:
  "ocr_loop sample_pyfloat example_ocr [0..<length (ocr_text example_ocr)] [] =
     Inr [\<lparr>ocr_x = Finite 5, ocr_y = Finite 1, ocr_w = Finite 50, ocr_h = Finite 12,
           ocr_cf = Finite 95\<rparr>]"
  by (simp add: example_ocr_def ocr_step_def read_cell_def py_float_def list_index_def
        parse_conf_def sample_pyfloat_examples strip_examples
        upt_rec [of 0] upt_rec [of 1] upt_rec [of 2] upt_rec [of 3] upt_rec [of 4])

lemma example_page_run:
  "process_page sample_pyfloat outdir 0 example_page =
     (outdir(of_ascii ''assets/page_001.png'' \<mapsto>
        PngFile \<lparr>pix_width = 1224, pix_height = 1584, pix_samples = []\<rparr>),
      Inr (pages example_manifest ! 0, example_text_layers ! 0))"
  by (simp add: process_page_def example_page_def example_spans_def Let_def fmt_03d_small
        page_scale_def span_step_def span_text_of_def span_bbox_of_def span_size_of_def
        span_font_of_def strip_examples bbox_to_dict_def bbox_dict.defs render_item.defs
        image_step_def example_ocr_run example_manifest_def example_text_layers_def)
     (simp add: of_ascii_def)

lemma example_blank_page_run:
  "process_page sample_pyfloat outdir (Suc 0) example_blank_page =
     (outdir(of_ascii ''assets/page_002.png'' \<mapsto>
        PngFile \<lparr>pix_width = 0, pix_height = 0, pix_samples = []\<rparr>),
      Inr (pages example_manifest ! 1, example_text_layers ! 1))"
  by (simp add: process_page_def example_blank_page_def Let_def fmt_03d_small
        page_scale_def example_manifest_def example_text_layers_def)
     (simp add: of_ascii_def)

lemma example_run:
  "run_pipeline sample_pyfloat Map.empty (Inr example_doc) (of_ascii ''a.pdf'') [] =
     (example_outdir, Inr example_result)"
  by (simp add: run_pipeline_def example_doc_def enumerate_simps example_page_run
        example_blank_page_run Let_def write_template_html_def example_outdir_def
        example_result_def)
     (simp add: example_manifest_def example_text_layers_def of_ascii_def numeral_2_eq_2)

section \<open>The claims\<close>

text \<open>
  C3: on every page of a successful run the scale factors used to build the manifest
  entries are \<open>sx = Rw / W\<close> when the page width \<open>W\<close> is positive and \<open>1\<close> when it is
  zero, and \<open>sy = Rh / H\<close> when the page height \<open>H\<close> is positive and \<open>1\<close> when it is
  zero, where \<open>Rw\<close> and \<open>Rh\<close> are the pixel dimensions of the page's raster image.
\<close>

theorem scale_factors:
  assumes "run_pipeline pyfloat outdir (Inr doc) original_name tesseract_path = (outdir', Inr res)"
    and "p < length doc"
  shows "\<exists>m pix sx sy.
           outdir' (of_ascii ''manifest.json'') = Some (ManifestFile m) \<and>
           get_pixmap (doc ! p) = Inr pix \<and>
           renderWidth (pages m ! p) = pix_width pix \<and>
           renderHeight (pages m ! p) = pix_height pix \<and>
           page_scale (rect_width (doc ! p)) (rect_height (doc ! p)) pix = (sx, sy) \<and>
           (0 < rect_width (doc ! p) \<longrightarrow> sx = real_of_int (pix_width pix) / rect_width (doc ! p)) \<and>
           (rect_width (doc ! p) = 0 \<longrightarrow> sx = 1) \<and>
           (0 < rect_height (doc ! p) \<longrightarrow> sy = real_of_int (pix_height pix) / rect_height (doc ! p)) \<and>
           (rect_height (doc ! p) = 0 \<longrightarrow> sy = 1) \<and>
           items (pages m ! p) =
             map (render_item_of sx sy) (filter span_emitted (text_spans (get_text (doc ! p)))) \<and>
           imageBoxes (pages m ! p) =
             map (image_box_of sx sy)
               (filter image_kept
                  (case td_blocks (get_text (doc ! p)) of None \<Rightarrow> [] | Some bs \<Rightarrow> bs))"
proof -
  from run_pipeline_page [OF assms] obtain ps tls pix ocr where
    m: "outdir' (of_ascii ''manifest.json'') =
          Some (ManifestFile \<lparr>sourceFile = original_name, pageCount = length ps, pages = ps\<rparr>)"
    and pix: "get_pixmap (doc ! p) = Inr pix"
    and r: "ps ! p = page_record_of pyfloat p (doc ! p) pix ocr"
    by blast
  obtain sx sy where sc: "page_scale (rect_width (doc ! p)) (rect_height (doc ! p)) pix = (sx, sy)"
    by (cases "page_scale (rect_width (doc ! p)) (rect_height (doc ! p)) pix")
  then have vals:
    "0 < rect_width (doc ! p) \<longrightarrow> sx = real_of_int (pix_width pix) / rect_width (doc ! p)"
    "rect_width (doc ! p) = 0 \<longrightarrow> sx = 1"
    "0 < rect_height (doc ! p) \<longrightarrow> sy = real_of_int (pix_height pix) / rect_height (doc ! p)"
    "rect_height (doc ! p) = 0 \<longrightarrow> sy = 1"
    by (auto simp: page_scale_def)
  from r sc have rec:
    "renderWidth (ps ! p) = pix_width pix" "renderHeight (ps ! p) = pix_height pix"
    "items (ps ! p) =
       map (render_item_of sx sy) (filter span_emitted (text_spans (get_text (doc ! p))))"
    "imageBoxes (ps ! p) =
       map (image_box_of sx sy)
         (filter image_kept (case td_blocks (get_text (doc ! p)) of None \<Rightarrow> [] | Some bs \<Rightarrow> bs))"
    by (simp_all add: page_record_of_def)
  show ?thesis
    apply (rule exI [of _ "\<lparr>sourceFile = original_name, pageCount = length ps, pages = ps\<rparr>"])
    apply (rule exI [of _ pix], rule exI [of _ sx], rule exI [of _ sy])
    using m pix sc vals rec apply simp
    done
qed

theorem scale_factors_witness:
  "run_pipeline sample_pyfloat Map.empty (Inr example_doc) (of_ascii ''a.pdf'') [] =
     (example_outdir, Inr example_result) \<and>
   0 < length example_doc \<and>
   (\<exists>m pix sx sy.
           example_outdir (of_ascii ''manifest.json'') = Some (ManifestFile m) \<and>
           get_pixmap (example_doc ! 0) = Inr pix \<and>
           renderWidth (pages m ! 0) = pix_width pix \<and>
           renderHeight (pages m ! 0) = pix_height pix \<and>
           page_scale (rect_width (example_doc ! 0)) (rect_height (example_doc ! 0)) pix = (sx, sy) \<and>
           (0 < rect_width (example_doc ! 0) \<longrightarrow>
              sx = real_of_int (pix_width pix) / rect_width (example_doc ! 0)) \<and>
           (rect_width (example_doc ! 0) = 0 \<longrightarrow> sx = 1) \<and>
           (0 < rect_height (example_doc ! 0) \<longrightarrow>
              sy = real_of_int (pix_height pix) / rect_height (example_doc ! 0)) \<and>
           (rect_height (example_doc ! 0) = 0 \<longrightarrow> sy = 1) \<and>
           items (pages m ! 0) =
             map (render_item_of sx sy)
               (filter span_emitted (text_spans (get_text (example_doc ! 0)))) \<and>
           imageBoxes (pages m ! 0) =
             map (image_box_of sx sy)
               (filter image_kept
                  (case td_blocks (get_text (example_doc ! 0)) of None \<Rightarrow> [] | Some bs \<Rightarrow> bs)))"
proof -
  have len: "0 < length example_doc" by (simp add: example_doc_def)
  from scale_factors [OF example_run len] example_run len show ?thesis by blast
qed

text \<open>
  C8: after a successful run the manifest's \<open>pageCount\<close> equals the length of its
  \<open>pages\<close>, which equals the number of pages of the document; the page records are in
  document order (record \<open>p\<close> carries the raster dimensions of page \<open>p\<close>) and
  \<open>pageNumber\<close> is the page index counted from 1. The text layer and the returned
  \<open>pages\<close> count agree with it.
\<close>

theorem page_count_and_order:
  assumes "run_pipeline pyfloat outdir (Inr doc) original_name tesseract_path = (outdir', Inr res)"
  shows "\<exists>m tls.
           outdir' (of_ascii ''manifest.json'') = Some (ManifestFile m) \<and>
           outdir' (of_ascii ''text-layer.json'') = Some (TextLayerFile tls) \<and>
           pageCount m = length (pages m) \<and> length (pages m) = length doc \<and>
           length tls = length doc \<and>
           res = [(''ok'', JBool True), (''pages'', JInt (int (length doc))),
                  (''preview'', JStr (of_ascii ''index.html''))] \<and>
           (\<forall>p<length doc.
              pageNumber (pages m ! p) = p + 1 \<and> tl_page (tls ! p) = p + 1 \<and>
              (\<exists>pix. get_pixmap (doc ! p) = Inr pix \<and>
                     renderWidth (pages m ! p) = pix_width pix \<and>
                     renderHeight (pages m ! p) = pix_height pix))"
proof -
  from run_pipeline_pages [OF assms] obtain ps tls where
    A: "length ps = length doc" "length tls = length doc"
      "outdir' (of_ascii ''manifest.json'') =
         Some (ManifestFile \<lparr>sourceFile = original_name, pageCount = length ps, pages = ps\<rparr>)"
      "outdir' (of_ascii ''text-layer.json'') = Some (TextLayerFile tls)"
      "res = [(''ok'', JBool True), (''pages'', JInt (int (length ps))),
              (''preview'', JStr (of_ascii ''index.html''))]"
    and B: "\<forall>p<length doc. \<exists>a b. process_page pyfloat a p (doc ! p) = (b, Inr (ps ! p, tls ! p))"
    by blast
  have C: "\<forall>p<length doc.
              pageNumber (ps ! p) = p + 1 \<and> tl_page (tls ! p) = p + 1 \<and>
              (\<exists>pix. get_pixmap (doc ! p) = Inr pix \<and>
                     renderWidth (ps ! p) = pix_width pix \<and>
                     renderHeight (ps ! p) = pix_height pix)"
  proof (intro allI impI)
    fix p assume "p < length doc"
    with B obtain a b where
      "process_page pyfloat a p (doc ! p) = (b, Inr (ps ! p, tls ! p))"
      by blast
    from process_page_Inr [OF this] obtain pix ocr where
      "get_pixmap (doc ! p) = Inr pix"
      "ps ! p = page_record_of pyfloat p (doc ! p) pix ocr"
      "tls ! p = text_layer_of p (doc ! p)"
      by blast
    then show "pageNumber (ps ! p) = p + 1 \<and> tl_page (tls ! p) = p + 1 \<and>
              (\<exists>pix. get_pixmap (doc ! p) = Inr pix \<and>
                     renderWidth (ps ! p) = pix_width pix \<and>
                     renderHeight (ps ! p) = pix_height pix)"
      by (simp add: page_record_of_def text_layer_of_def)
  qed
  show ?thesis
    apply (rule exI [of _ "\<lparr>sourceFile = original_name, pageCount = length ps, pages = ps\<rparr>"])
    apply (rule exI [of _ tls])
    using A C apply simp
    done
qed

theorem page_count_and_order_witness:
  "run_pipeline sample_pyfloat Map.empty (Inr example_doc) (of_ascii ''a.pdf'') [] =
     (example_outdir, Inr example_result) \<and>
   (\<exists>m tls.
           example_outdir (of_ascii ''manifest.json'') = Some (ManifestFile m) \<and>
           example_outdir (of_ascii ''text-layer.json'') = Some (TextLayerFile tls) \<and>
           pageCount m = length (pages m) \<and> length (pages m) = length example_doc \<and>
           length tls = length example_doc \<and>
           example_result = [(''ok'', JBool True), (''pages'', JInt (int (length example_doc))),
                  (''preview'', JStr (of_ascii ''index.html''))] \<and>
           (\<forall>p<length example_doc.
              pageNumber (pages m ! p) = p + 1 \<and> tl_page (tls ! p) = p + 1 \<and>
              (\<exists>pix. get_pixmap (example_doc ! p) = Inr pix \<and>
                     renderWidth (pages m ! p) = pix_width pix \<and>
                     renderHeight (pages m ! p) = pix_height pix)))"
  using page_count_and_order [OF example_run] example_run by blast

lemma length_four:
  assumes "length b = 4"
  shows "b = [b ! 0, b ! 1, b ! 2, b ! 3]"
proof -
  from assms obtain x0 b1 where b: "b = x0 # b1" and l1: "length b1 = 3"
    by (cases b) simp_all
  from l1 obtain y0 b2 where b1: "b1 = y0 # b2" and l2: "length b2 = 2"
    by (cases b1) simp_all
  from l2 obtain x1 b3 where b2: "b2 = x1 # b3" and l3: "length b3 = 1"
    by (cases b2) simp_all
  from l3 obtain y1 where b3: "b3 = [y1]"
    by (cases b3) simp_all
  show ?thesis by (simp add: b b1 b2 b3)
qed

lemma render_item_of_box:
  assumes "span_bbox_of s = [x0, y0, x1, y1]"
  shows "box_x (render_item_of sx sy s) = x0 * sx"
    and "box_y (render_item_of sx sy s) = y0 * sy"
    and "box_w (render_item_of sx sy s) = max 0 (x1 * sx - x0 * sx)"
    and "box_h (render_item_of sx sy s) = max 0 (y1 * sy - y0 * sy)"
  using assms by (simp_all add: render_item_of_def)

lemma image_box_of_box:
  assumes "block_bbox b = Some [x0, y0, x1, y1]"
  shows "image_box_of sx sy b =
           \<lparr>box_x = x0 * sx, box_y = y0 * sy, box_w = max 0 (x1 * sx - x0 * sx),
            box_h = max 0 (y1 * sy - y0 * sy)\<rparr>"
  using assms by (simp add: image_box_of_def)

lemma span_emitted_bbox:
  assumes "span_emitted s"
  shows "\<exists>x0 y0 x1 y1. span_bbox_of s = [x0, y0, x1, y1]"
proof -
  from assms have "length (span_bbox_of s) = 4" by (simp add: span_emitted_def)
  from length_four [OF this] show ?thesis by blast
qed

lemma image_kept_bbox:
  assumes "image_kept b"
  shows "\<exists>x0 y0 x1 y1. block_bbox b = Some [x0, y0, x1, y1]"
proof -
  from assms obtain bb where bb: "block_bbox b = Some bb" "length bb = 4"
    by (auto simp: image_kept_def split: option.splits)
  from length_four [OF bb(2)] bb(1) show ?thesis by auto
qed

lemma filter_nth_holds:
  assumes "i < length (filter P xs)"
  shows "P (filter P xs ! i)"
proof -
  from assms have "filter P xs ! i \<in> set (filter P xs)" by (rule nth_mem)
  then show ?thesis by simp
qed

text \<open>
  C1: on every page of a successful run, every text span that is emitted and every image
  block that is emitted has in the manifest the box obtained from its PDF-space bbox
  \<open>(x0, y0, x1, y1)\<close> as \<open>x = x0 * sx\<close>, \<open>y = y0 * sy\<close>,
  \<open>w = max 0 (x1 * sx - x0 * sx)\<close>, \<open>h = max 0 (y1 * sy - y0 * sy)\<close>, with the scale
  factors of the page; \<open>w\<close> and \<open>h\<close> are never negative.
\<close>

theorem raster_bbox_scaled:
  assumes "run_pipeline pyfloat outdir (Inr doc) original_name tesseract_path = (outdir', Inr res)"
    and "p < length doc"
  shows "\<exists>m pix sx sy.
           outdir' (of_ascii ''manifest.json'') = Some (ManifestFile m) \<and>
           get_pixmap (doc ! p) = Inr pix \<and>
           page_scale (rect_width (doc ! p)) (rect_height (doc ! p)) pix = (sx, sy) \<and>
           length (items (pages m ! p)) =
             length (filter span_emitted (text_spans (get_text (doc ! p)))) \<and>
           (\<forall>i<length (items (pages m ! p)). \<exists>x0 y0 x1 y1.
              span_bbox_of (filter span_emitted (text_spans (get_text (doc ! p))) ! i) =
                [x0, y0, x1, y1] \<and>
              box_x (items (pages m ! p) ! i) = x0 * sx \<and>
              box_y (items (pages m ! p) ! i) = y0 * sy \<and>
              box_w (items (pages m ! p) ! i) = max 0 (x1 * sx - x0 * sx) \<and>
              box_h (items (pages m ! p) ! i) = max 0 (y1 * sy - y0 * sy) \<and>
              0 \<le> box_w (items (pages m ! p) ! i) \<and> 0 \<le> box_h (items (pages m ! p) ! i)) \<and>
           length (imageBoxes (pages m ! p)) =
             length (filter image_kept
                (case td_blocks (get_text (doc ! p)) of None \<Rightarrow> [] | Some bs \<Rightarrow> bs)) \<and>
           (\<forall>i<length (imageBoxes (pages m ! p)). \<exists>x0 y0 x1 y1.
              block_bbox (filter image_kept
                (case td_blocks (get_text (doc ! p)) of None \<Rightarrow> [] | Some bs \<Rightarrow> bs) ! i) =
                Some [x0, y0, x1, y1] \<and>
              imageBoxes (pages m ! p) ! i =
                \<lparr>box_x = x0 * sx, box_y = y0 * sy, box_w = max 0 (x1 * sx - x0 * sx),
                 box_h = max 0 (y1 * sy - y0 * sy)\<rparr> \<and>
              0 \<le> box_w (imageBoxes (pages m ! p) ! i) \<and>
              0 \<le> box_h (imageBoxes (pages m ! p) ! i))"
proof -
  from run_pipeline_page [OF assms] obtain ps tls pix ocr where
    m: "outdir' (of_ascii ''manifest.json'') =
          Some (ManifestFile \<lparr>sourceFile = original_name, pageCount = length ps, pages = ps\<rparr>)"
    and pix: "get_pixmap (doc ! p) = Inr pix"
    and r: "ps ! p = page_record_of pyfloat p (doc ! p) pix ocr"
    by blast
  obtain sx sy where sc: "page_scale (rect_width (doc ! p)) (rect_height (doc ! p)) pix = (sx, sy)"
    by (cases "page_scale (rect_width (doc ! p)) (rect_height (doc ! p)) pix")
  define es where "es = filter span_emitted (text_spans (get_text (doc ! p)))"
  define ks where "ks = filter image_kept
                (case td_blocks (get_text (doc ! p)) of None \<Rightarrow> [] | Some bs \<Rightarrow> bs)"
  from r sc have its: "items (ps ! p) = map (render_item_of sx sy) es"
    and ims: "imageBoxes (ps ! p) = map (image_box_of sx sy) ks"
    by (simp_all add: page_record_of_def es_def ks_def)
  have spans: "\<forall>i<length (items (ps ! p)). \<exists>x0 y0 x1 y1.
              span_bbox_of (es ! i) = [x0, y0, x1, y1] \<and>
              box_x (items (ps ! p) ! i) = x0 * sx \<and>
              box_y (items (ps ! p) ! i) = y0 * sy \<and>
              box_w (items (ps ! p) ! i) = max 0 (x1 * sx - x0 * sx) \<and>
              box_h (items (ps ! p) ! i) = max 0 (y1 * sy - y0 * sy) \<and>
              0 \<le> box_w (items (ps ! p) ! i) \<and> 0 \<le> box_h (items (ps ! p) ! i)"
  proof (intro allI impI)
    fix i assume "i < length (items (ps ! p))"
    with its have i: "i < length es" by simp
    then have "span_emitted (es ! i)" unfolding es_def by (rule filter_nth_holds)
    from span_emitted_bbox [OF this] obtain x0 y0 x1 y1 where
      b: "span_bbox_of (es ! i) = [x0, y0, x1, y1]" by blast
    from its i have it: "items (ps ! p) ! i = render_item_of sx sy (es ! i)" by simp
    from render_item_of_box [OF b, of sx sy] it b
    show "\<exists>x0 y0 x1 y1.
              span_bbox_of (es ! i) = [x0, y0, x1, y1] \<and>
              box_x (items (ps ! p) ! i) = x0 * sx \<and>
              box_y (items (ps ! p) ! i) = y0 * sy \<and>
              box_w (items (ps ! p) ! i) = max 0 (x1 * sx - x0 * sx) \<and>
              box_h (items (ps ! p) ! i) = max 0 (y1 * sy - y0 * sy) \<and>
              0 \<le> box_w (items (ps ! p) ! i) \<and> 0 \<le> box_h (items (ps ! p) ! i)"
      by simp
  qed
  have blocks: "\<forall>i<length (imageBoxes (ps ! p)). \<exists>x0 y0 x1 y1.
              block_bbox (ks ! i) = Some [x0, y0, x1, y1] \<and>
              imageBoxes (ps ! p) ! i =
                \<lparr>box_x = x0 * sx, box_y = y0 * sy, box_w = max 0 (x1 * sx - x0 * sx),
                 box_h = max 0 (y1 * sy - y0 * sy)\<rparr> \<and>
              0 \<le> box_w (imageBoxes (ps ! p) ! i) \<and>
              0 \<le> box_h (imageBoxes (ps ! p) ! i)"
  proof (intro allI impI)
    fix i assume "i < length (imageBoxes (ps ! p))"
    with ims have i: "i < length ks" by simp
    then have "image_kept (ks ! i)" unfolding ks_def by (rule filter_nth_holds)
    from image_kept_bbox [OF this] obtain x0 y0 x1 y1 where
      b: "block_bbox (ks ! i) = Some [x0, y0, x1, y1]" by blast
    from ims i have "imageBoxes (ps ! p) ! i = image_box_of sx sy (ks ! i)" by simp
    with image_box_of_box [OF b, of sx sy] b
    show "\<exists>x0 y0 x1 y1.
              block_bbox (ks ! i) = Some [x0, y0, x1, y1] \<and>
              imageBoxes (ps ! p) ! i =
                \<lparr>box_x = x0 * sx, box_y = y0 * sy, box_w = max 0 (x1 * sx - x0 * sx),
                 box_h = max 0 (y1 * sy - y0 * sy)\<rparr> \<and>
              0 \<le> box_w (imageBoxes (ps ! p) ! i) \<and>
              0 \<le> box_h (imageBoxes (ps ! p) ! i)"
      by simp
  qed
  from its ims have lens: "length (items (ps ! p)) = length es"
    "length (imageBoxes (ps ! p)) = length ks" by simp_all
  show ?thesis
    apply (rule exI [of _ "\<lparr>sourceFile = original_name, pageCount = length ps, pages = ps\<rparr>"])
    apply (rule exI [of _ pix], rule exI [of _ sx], rule exI [of _ sy])
    using m pix sc lens spans blocks unfolding es_def ks_def apply simp
    done
qed

theorem raster_bbox_scaled_witness:
  "run_pipeline sample_pyfloat Map.empty (Inr example_doc) (of_ascii ''a.pdf'') [] =
     (example_outdir, Inr example_result) \<and>
   0 < length example_doc \<and>
   (\<exists>m pix sx sy.
           example_outdir (of_ascii ''manifest.json'') = Some (ManifestFile m) \<and>
           get_pixmap (example_doc ! 0) = Inr pix \<and>
           page_scale (rect_width (example_doc ! 0)) (rect_height (example_doc ! 0)) pix = (sx, sy) \<and>
           length (items (pages m ! 0)) =
             length (filter span_emitted (text_spans (get_text (example_doc ! 0)))) \<and>
           (\<forall>i<length (items (pages m ! 0)). \<exists>x0 y0 x1 y1.
              span_bbox_of (filter span_emitted (text_spans (get_text (example_doc ! 0))) ! i) =
                [x0, y0, x1, y1] \<and>
              box_x (items (pages m ! 0) ! i) = x0 * sx \<and>
              box_y (items (pages m ! 0) ! i) = y0 * sy \<and>
              box_w (items (pages m ! 0) ! i) = max 0 (x1 * sx - x0 * sx) \<and>
              box_h (items (pages m ! 0) ! i) = max 0 (y1 * sy - y0 * sy) \<and>
              0 \<le> box_w (items (pages m ! 0) ! i) \<and> 0 \<le> box_h (items (pages m ! 0) ! i)) \<and>
           length (imageBoxes (pages m ! 0)) =
             length (filter image_kept
                (case td_blocks (get_text (example_doc ! 0)) of None \<Rightarrow> [] | Some bs \<Rightarrow> bs)) \<and>
           (\<forall>i<length (imageBoxes (pages m ! 0)). \<exists>x0 y0 x1 y1.
              block_bbox (filter image_kept
                (case td_blocks (get_text (example_doc ! 0)) of None \<Rightarrow> [] | Some bs \<Rightarrow> bs) ! i) =
                Some [x0, y0, x1, y1] \<and>
              imageBoxes (pages m ! 0) ! i =
                \<lparr>box_x = x0 * sx, box_y = y0 * sy, box_w = max 0 (x1 * sx - x0 * sx),
                 box_h = max 0 (y1 * sy - y0 * sy)\<rparr> \<and>
              0 \<le> box_w (imageBoxes (pages m ! 0) ! i) \<and>
              0 \<le> box_h (imageBoxes (pages m ! 0) ! i)))"
proof -
  have len: "0 < length example_doc" by (simp add: example_doc_def)
  from raster_bbox_scaled [OF example_run len] example_run len show ?thesis by blast
qed




text \<open>
  C2: on every page of a successful run the \<open>ocrBoxes\<close> of the manifest are, in order,
  the OCR fragments that survive filtering, each with \<open>x\<close>, \<open>y\<close>, \<open>w\<close>, \<open>h\<close> equal
  to the float of the engine's left, top, width and height cell (a number cell gives that
  number) and with its parsed confidence: no scale factor and no bbox normalisation is
  applied. The text items and the image boxes of the same page are the ones scaled by
  \<open>(sx, sy)\<close>.
\<close>

theorem ocr_boxes_unscaled:
  assumes "run_pipeline pyfloat outdir (Inr doc) original_name tesseract_path = (outdir', Inr res)"
    and "p < length doc"
  shows "\<exists>m ocr pix sx sy.
           outdir' (of_ascii ''manifest.json'') = Some (ManifestFile m) \<and>
           image_to_data_result (doc ! p) = Inr ocr \<and>
           length (ocrBoxes (pages m ! p)) =
             length (filter (\<lambda>j. \<not> ocr_discarded pyfloat ocr j) [0..<length (ocr_text ocr)]) \<and>
           (\<forall>i<length (ocrBoxes (pages m ! p)). \<exists>j l t w h.
              j = filter (\<lambda>j. \<not> ocr_discarded pyfloat ocr j) [0..<length (ocr_text ocr)] ! i \<and>
              j < length (ocr_text ocr) \<and> j < length (ocr_conf ocr) \<and>
              j < length (ocr_left ocr) \<and> j < length (ocr_top ocr) \<and>
              j < length (ocr_width ocr) \<and> j < length (ocr_height ocr) \<and>
              py_float pyfloat (ocr_left ocr ! j) = Inr l \<and>
              py_float pyfloat (ocr_top ocr ! j) = Inr t \<and>
              py_float pyfloat (ocr_width ocr ! j) = Inr w \<and>
              py_float pyfloat (ocr_height ocr ! j) = Inr h \<and>
              ocrBoxes (pages m ! p) ! i =
                \<lparr>ocr_x = l, ocr_y = t, ocr_w = w, ocr_h = h,
                 ocr_cf = parse_conf pyfloat (ocr_conf ocr ! j)\<rparr>) \<and>
           (\<forall>r. py_float pyfloat (PyNum r) = Inr (Finite r)) \<and>
           get_pixmap (doc ! p) = Inr pix \<and>
           page_scale (rect_width (doc ! p)) (rect_height (doc ! p)) pix = (sx, sy) \<and>
           items (pages m ! p) =
             map (render_item_of sx sy) (filter span_emitted (text_spans (get_text (doc ! p)))) \<and>
           imageBoxes (pages m ! p) =
             map (image_box_of sx sy)
               (filter image_kept
                  (case td_blocks (get_text (doc ! p)) of None \<Rightarrow> [] | Some bs \<Rightarrow> bs))"
proof -
  from run_pipeline_page [OF assms] obtain ps tls pix ocr where
    m: "outdir' (of_ascii ''manifest.json'') =
          Some (ManifestFile \<lparr>sourceFile = original_name, pageCount = length ps, pages = ps\<rparr>)"
    and pix: "get_pixmap (doc ! p) = Inr pix"
    and ocr: "image_to_data_result (doc ! p) = Inr ocr"
    and loop: "ocr_loop pyfloat ocr [0..<length (ocr_text ocr)] [] = Inr (ocrBoxes (ps ! p))"
    and r: "ps ! p = page_record_of pyfloat p (doc ! p) pix ocr"
    by blast
  obtain sx sy where sc: "page_scale (rect_width (doc ! p)) (rect_height (doc ! p)) pix = (sx, sy)"
    by (cases "page_scale (rect_width (doc ! p)) (rect_height (doc ! p)) pix")
  define ks where "ks = filter (\<lambda>j. \<not> ocr_discarded pyfloat ocr j) [0..<length (ocr_text ocr)]"
  from r sc have its: "items (ps ! p) =
      map (render_item_of sx sy) (filter span_emitted (text_spans (get_text (doc ! p))))"
    and ims: "imageBoxes (ps ! p) =
      map (image_box_of sx sy)
        (filter image_kept (case td_blocks (get_text (doc ! p)) of None \<Rightarrow> [] | Some bs \<Rightarrow> bs))"
    and bs: "ocrBoxes (ps ! p) = map (ocr_box_of pyfloat ocr) ks"
    by (simp_all add: page_record_of_def ks_def)
  have boxes: "\<forall>i<length (ocrBoxes (ps ! p)). \<exists>j l t w h.
              j = ks ! i \<and>
              j < length (ocr_text ocr) \<and> j < length (ocr_conf ocr) \<and>
              j < length (ocr_left ocr) \<and> j < length (ocr_top ocr) \<and>
              j < length (ocr_width ocr) \<and> j < length (ocr_height ocr) \<and>
              py_float pyfloat (ocr_left ocr ! j) = Inr l \<and>
              py_float pyfloat (ocr_top ocr ! j) = Inr t \<and>
              py_float pyfloat (ocr_width ocr ! j) = Inr w \<and>
              py_float pyfloat (ocr_height ocr ! j) = Inr h \<and>
              ocrBoxes (ps ! p) ! i =
                \<lparr>ocr_x = l, ocr_y = t, ocr_w = w, ocr_h = h,
                 ocr_cf = parse_conf pyfloat (ocr_conf ocr ! j)\<rparr>"
  proof (intro allI impI)
    fix i assume "i < length (ocrBoxes (ps ! p))"
    with bs have i: "i < length ks" by simp
    then have "ks ! i \<in> set ks" by (rule nth_mem)
    then have mem: "ks ! i \<in> set [0..<length (ocr_text ocr)]"
      and kept: "\<not> ocr_discarded pyfloat ocr (ks ! i)"
      by (simp_all add: ks_def)
    define l where "l = cell_float pyfloat (ocr_left ocr) (ks ! i)"
    define t where "t = cell_float pyfloat (ocr_top ocr) (ks ! i)"
    define w where "w = cell_float pyfloat (ocr_width ocr) (ks ! i)"
    define h where "h = cell_float pyfloat (ocr_height ocr) (ks ! i)"
    from ocr_loop_kept_in_range [OF loop mem kept]
    have cf: "ks ! i < length (ocr_conf ocr)"
      and rd: "read_cell pyfloat (ocr_left ocr) (ks ! i) = Inr l"
        "read_cell pyfloat (ocr_top ocr) (ks ! i) = Inr t"
        "read_cell pyfloat (ocr_width ocr) (ks ! i) = Inr w"
        "read_cell pyfloat (ocr_height ocr) (ks ! i) = Inr h"
      by (simp_all add: l_def t_def w_def h_def)
    from mem have tx: "ks ! i < length (ocr_text ocr)" by simp
    from bs i have "ocrBoxes (ps ! p) ! i = ocr_box_of pyfloat ocr (ks ! i)" by simp
    then have box: "ocrBoxes (ps ! p) ! i =
        \<lparr>ocr_x = l, ocr_y = t, ocr_w = w, ocr_h = h,
         ocr_cf = parse_conf pyfloat (ocr_conf ocr ! (ks ! i))\<rparr>"
      by (simp add: ocr_box_of_def l_def t_def w_def h_def)
    from tx cf read_cell_Inr [OF rd(1)] read_cell_Inr [OF rd(2)] read_cell_Inr [OF rd(3)]
      read_cell_Inr [OF rd(4)] box
    show "\<exists>j l t w h.
              j = ks ! i \<and>
              j < length (ocr_text ocr) \<and> j < length (ocr_conf ocr) \<and>
              j < length (ocr_left ocr) \<and> j < length (ocr_top ocr) \<and>
              j < length (ocr_width ocr) \<and> j < length (ocr_height ocr) \<and>
              py_float pyfloat (ocr_left ocr ! j) = Inr l \<and>
              py_float pyfloat (ocr_top ocr ! j) = Inr t \<and>
              py_float pyfloat (ocr_width ocr ! j) = Inr w \<and>
              py_float pyfloat (ocr_height ocr ! j) = Inr h \<and>
              ocrBoxes (ps ! p) ! i =
                \<lparr>ocr_x = l, ocr_y = t, ocr_w = w, ocr_h = h,
                 ocr_cf = parse_conf pyfloat (ocr_conf ocr ! j)\<rparr>"
      by (intro exI [of _ "ks ! i"] exI [of _ l] exI [of _ t] exI [of _ w] exI [of _ h]) simp
  qed
  from bs have len: "length (ocrBoxes (ps ! p)) = length ks" by simp
  have num: "\<forall>r. py_float pyfloat (PyNum r) = Inr (Finite r)" by (simp add: py_float_def)
  define mm where "mm = \<lparr>sourceFile = original_name, pageCount = length ps, pages = ps\<rparr>"
  have pm: "ps = pages mm" by (simp add: mm_def)
  from m have m': "outdir' (of_ascii ''manifest.json'') = Some (ManifestFile mm)"
    by (simp add: mm_def)
  from m' ocr len boxes num pix sc its ims show ?thesis
    unfolding ks_def pm
    by (intro exI [of _ mm] exI [of _ ocr] exI [of _ pix] exI [of _ sx] exI [of _ sy] conjI)
qed

theorem ocr_boxes_unscaled_witness:
  "run_pipeline sample_pyfloat Map.empty (Inr example_doc) (of_ascii ''a.pdf'') [] =
     (example_outdir, Inr example_result) \<and>
   0 < length example_doc \<and>
   (\<exists>m ocr pix sx sy.
           example_outdir (of_ascii ''manifest.json'') = Some (ManifestFile m) \<and>
           image_to_data_result (example_doc ! 0) = Inr ocr \<and>
           length (ocrBoxes (pages m ! 0)) =
             length (filter (\<lambda>j. \<not> ocr_discarded sample_pyfloat ocr j)
                       [0..<length (ocr_text ocr)]) \<and>
           (\<forall>i<length (ocrBoxes (pages m ! 0)). \<exists>j l t w h.
              j = filter (\<lambda>j. \<not> ocr_discarded sample_pyfloat ocr j)
                    [0..<length (ocr_text ocr)] ! i \<and>
              j < length (ocr_text ocr) \<and> j < length (ocr_conf ocr) \<and>
              j < length (ocr_left ocr) \<and> j < length (ocr_top ocr) \<and>
              j < length (ocr_width ocr) \<and> j < length (ocr_height ocr) \<and>
              py_float sample_pyfloat (ocr_left ocr ! j) = Inr l \<and>
              py_float sample_pyfloat (ocr_top ocr ! j) = Inr t \<and>
              py_float sample_pyfloat (ocr_width ocr ! j) = Inr w \<and>
              py_float sample_pyfloat (ocr_height ocr ! j) = Inr h \<and>
              ocrBoxes (pages m ! 0) ! i =
                \<lparr>ocr_x = l, ocr_y = t, ocr_w = w, ocr_h = h,
                 ocr_cf = parse_conf sample_pyfloat (ocr_conf ocr ! j)\<rparr>) \<and>
           (\<forall>r. py_float sample_pyfloat (PyNum r) = Inr (Finite r)) \<and>
           get_pixmap (example_doc ! 0) = Inr pix \<and>
           page_scale (rect_width (example_doc ! 0)) (rect_height (example_doc ! 0)) pix = (sx, sy) \<and>
           items (pages m ! 0) =
             map (render_item_of sx sy)
               (filter span_emitted (text_spans (get_text (example_doc ! 0)))) \<and>
           imageBoxes (pages m ! 0) =
             map (image_box_of sx sy)
               (filter image_kept
                  (case td_blocks (get_text (example_doc ! 0)) of None \<Rightarrow> [] | Some bs \<Rightarrow> bs)))"
proof -
  have len: "0 < length example_doc" by (simp add: example_doc_def)
  from ocr_boxes_unscaled [OF example_run len] example_run len show ?thesis by blast
qed







lemma example_ocr_columns_ok: "ocr_columns_ok sample_pyfloat example_ocr"
  by (simp add: ocr_columns_ok_def cell_ok_def read_cell_def py_float_def list_index_def
        example_ocr_def sample_pyfloat_examples
        upt_rec [of 0] upt_rec [of 1] upt_rec [of 2] upt_rec [of 3] upt_rec [of 4])


section \<open>Further facts about the pipeline\<close>

lemma dropWhile_self:
  assumes "xs = [] \<or> \<not> P (hd xs)"
  shows "dropWhile P xs = xs"
  using assms by (cases xs) auto

lemma dropWhile_head:
  "dropWhile P xs = [] \<or> \<not> P (hd (dropWhile P xs))"
  by (induction xs) auto

lemma strip_strip: "strip (strip s) = strip s"
proof -
  define a where "a = dropWhile py_isspace s"
  define b where "b = rev (dropWhile py_isspace (rev a))"
  have s: "strip s = b" by (simp add: strip_def a_def b_def)
  have a: "a = [] \<or> \<not> py_isspace (hd a)"
    unfolding a_def by (rule dropWhile_head)
  have rb: "rev b = dropWhile py_isspace (rev a)" by (simp add: b_def)
  have rear: "dropWhile py_isspace (rev b) = rev b"
    unfolding rb by (rule dropWhile_idem)
  have "b @ rev (takeWhile py_isspace (rev a)) =
          rev (takeWhile py_isspace (rev a) @ dropWhile py_isspace (rev a))"
    by (simp only: rev_append b_def)
  also have "\<dots> = a" by (simp only: takeWhile_dropWhile_id rev_rev_ident)
  finally have "a = b @ rev (takeWhile py_isspace (rev a))" by (rule sym)
  then obtain rest where ab: "a = b @ rest" ..
  have "b = [] \<or> \<not> py_isspace (hd b)"
  proof (cases b)
    case Nil
    then show ?thesis by simp
  next
    case (Cons x b')
    with ab have "a \<noteq> []" and "hd a = x" by auto
    with a Cons show ?thesis by simp
  qed
  then have front: "dropWhile py_isspace b = b" by (rule dropWhile_self)
  show ?thesis
    unfolding s by (simp add: strip_def front rear)
qed


lemma run_pipeline_all:
  assumes "run_pipeline pyfloat outdir (Inr doc) original_name tesseract_path = (outdir', Inr res)"
  shows "\<exists>ps tls.
           length ps = length doc \<and> length tls = length doc \<and>
           outdir' (of_ascii ''manifest.json'') =
             Some (ManifestFile \<lparr>sourceFile = original_name, pageCount = length ps, pages = ps\<rparr>) \<and>
           outdir' (of_ascii ''text-layer.json'') = Some (TextLayerFile tls) \<and>
           (\<forall>p<length doc. \<exists>pix ocr.
              get_pixmap (doc ! p) = Inr pix \<and> image_to_data_result (doc ! p) = Inr ocr \<and>
              ps ! p = page_record_of pyfloat p (doc ! p) pix ocr \<and>
              tls ! p = text_layer_of p (doc ! p))"
proof -
  from run_pipeline_pages [OF assms] obtain ps tls where
    A: "length ps = length doc" "length tls = length doc"
      "outdir' (of_ascii ''manifest.json'') =
         Some (ManifestFile \<lparr>sourceFile = original_name, pageCount = length ps, pages = ps\<rparr>)"
      "outdir' (of_ascii ''text-layer.json'') = Some (TextLayerFile tls)"
    and B: "\<forall>p<length doc. \<exists>a b. process_page pyfloat a p (doc ! p) = (b, Inr (ps ! p, tls ! p))"
    by blast
  have "\<forall>p<length doc. \<exists>pix ocr.
              get_pixmap (doc ! p) = Inr pix \<and> image_to_data_result (doc ! p) = Inr ocr \<and>
              ps ! p = page_record_of pyfloat p (doc ! p) pix ocr \<and>
              tls ! p = text_layer_of p (doc ! p)"
  proof (intro allI impI)
    fix p assume "p < length doc"
    with B obtain a b where
      "process_page pyfloat a p (doc ! p) = (b, Inr (ps ! p, tls ! p))"
      by blast
    from process_page_Inr [OF this]
    show "\<exists>pix ocr.
              get_pixmap (doc ! p) = Inr pix \<and> image_to_data_result (doc ! p) = Inr ocr \<and>
              ps ! p = page_record_of pyfloat p (doc ! p) pix ocr \<and>
              tls ! p = text_layer_of p (doc ! p)"
      by blast
  qed
  with A show ?thesis by blast
qed

lemma process_page_ok:
  assumes "get_pixmap page = Inr pix" and "image_to_data_result page = Inr ocr"
    and "ocr_columns_ok pyfloat ocr"
  shows "\<exists>out r l. process_page pyfloat outdir i page = (out, Inr (r, l))"
  using ocr_columns_ok_total [OF assms(3)] assms(1,2)
  by (simp add: process_page_def Let_def)

lemma pages_loop_ok:
  assumes "\<forall>x\<in>set xs. page_ok pyfloat (snd x)"
  shows "\<exists>out ps' tls'. pages_loop pyfloat xs (outdir, ps, tls) = (out, Inr (ps', tls'))"
  using assms
proof (induction xs arbitrary: outdir ps tls)
  case Nil
  show ?case by simp
next
  case (Cons x xs)
  obtain i page where x: "x = (i, page)" by (cases x)
  from Cons.prems x have "page_ok pyfloat page" by simp
  then obtain pix ocr where "get_pixmap page = Inr pix" "image_to_data_result page = Inr ocr"
    "ocr_columns_ok pyfloat ocr"
    by (auto simp: page_ok_def split: sum.splits)
  from process_page_ok [OF this, of outdir i] obtain out r l where
    "process_page pyfloat outdir i page = (out, Inr (r, l))" by blast
  moreover from Cons.prems have "\<forall>x\<in>set xs. page_ok pyfloat (snd x)" by simp
  from Cons.IH [OF this, of out "ps @ [r]" "tls @ [l]"] obtain out' ps' tls' where
    "pages_loop pyfloat xs (out, ps @ [r], tls @ [l]) = (out', Inr (ps', tls'))" by blast
  ultimately show ?case by (simp add: x)
qed

lemma run_pipeline_ok:
  assumes "\<forall>page\<in>set doc. page_ok pyfloat page"
  shows "\<exists>out res. run_pipeline pyfloat outdir (Inr doc) original_name tesseract_path =
           (out, Inr res)"
proof -
  from assms have "\<forall>x\<in>set (enumerate 0 doc). page_ok pyfloat (snd x)"
    by (auto simp: in_set_enumerate_eq)
  from pages_loop_ok [OF this, of outdir "[]" "[]"] obtain out ps' tls' where
    "pages_loop pyfloat (enumerate 0 doc) (outdir, [], []) = (out, Inr (ps', tls'))" by blast
  then show ?thesis by (simp add: run_pipeline_def Let_def)
qed

section \<open>The claims, continued\<close>

lemma span_text_of_stripped: "strip (span_text_of s) = span_text_of s"
  by (simp add: span_text_of_def strip_strip)

lemma span_step_empty_text:
  assumes "span_text_of s = []"
  shows "span_step sx sy s st = st"
  using assms by (simp add: span_step_eq span_emitted_def)

text \<open>
  C5: the text of a span is trimmed first (\<open>span_text_of\<close>); a span whose trimmed text
  is empty leaves both lists unchanged whatever its other fields are; on every page of a
  successful run the texts of the manifest items and of the text-layer items are, in
  order, the trimmed texts of the emitted spans, and each of them is non-empty and
  already trimmed.
\<close>

theorem empty_spans_dropped:
  assumes "run_pipeline pyfloat outdir (Inr doc) original_name tesseract_path = (outdir', Inr res)"
    and "p < length doc"
  shows "\<exists>m tls.
           outdir' (of_ascii ''manifest.json'') = Some (ManifestFile m) \<and>
           outdir' (of_ascii ''text-layer.json'') = Some (TextLayerFile tls) \<and>
           map item_text (items (pages m ! p)) =
             map span_text_of (filter span_emitted (text_spans (get_text (doc ! p)))) \<and>
           map pdf_text (tl_items (tls ! p)) =
             map span_text_of (filter span_emitted (text_spans (get_text (doc ! p)))) \<and>
           (\<forall>it\<in>set (items (pages m ! p)).
              item_text it \<noteq> [] \<and> strip (item_text it) = item_text it) \<and>
           (\<forall>it\<in>set (tl_items (tls ! p)).
              pdf_text it \<noteq> [] \<and> strip (pdf_text it) = pdf_text it) \<and>
           (\<forall>s. span_text_of s = [] \<longrightarrow>
              \<not> span_emitted s \<and> (\<forall>sx sy st. span_step sx sy s st = st))"
proof -
  from run_pipeline_page [OF assms] obtain ps tls pix ocr where
    m: "outdir' (of_ascii ''manifest.json'') =
          Some (ManifestFile \<lparr>sourceFile = original_name, pageCount = length ps, pages = ps\<rparr>)"
    and t: "outdir' (of_ascii ''text-layer.json'') = Some (TextLayerFile tls)"
    and r: "ps ! p = page_record_of pyfloat p (doc ! p) pix ocr"
    and l: "tls ! p = text_layer_of p (doc ! p)"
    by blast
  define es where "es = filter span_emitted (text_spans (get_text (doc ! p)))"
  define sx where "sx = fst (page_scale (rect_width (doc ! p)) (rect_height (doc ! p)) pix)"
  define sy where "sy = snd (page_scale (rect_width (doc ! p)) (rect_height (doc ! p)) pix)"
  from r l have its: "items (ps ! p) = map (render_item_of sx sy) es"
    and tis: "tl_items (tls ! p) = map pdf_item_of es"
    by (simp_all add: page_record_of_def text_layer_of_def es_def sx_def sy_def)
  have em: "\<forall>s\<in>set es. span_text_of s \<noteq> []"
    by (simp add: es_def span_emitted_def)
  have texts: "map item_text (items (ps ! p)) = map span_text_of es"
    "map pdf_text (tl_items (tls ! p)) = map span_text_of es"
    by (simp_all add: its tis render_item_of_def pdf_item_of_def)
  from em have nonempty:
    "\<forall>it\<in>set (items (ps ! p)). item_text it \<noteq> [] \<and> strip (item_text it) = item_text it"
    "\<forall>it\<in>set (tl_items (tls ! p)). pdf_text it \<noteq> [] \<and> strip (pdf_text it) = pdf_text it"
    by (auto simp: its tis render_item_of_def pdf_item_of_def span_text_of_stripped)
  have skip: "\<forall>s. span_text_of s = [] \<longrightarrow>
              \<not> span_emitted s \<and> (\<forall>sx sy st. span_step sx sy s st = st)"
    by (simp add: span_step_empty_text span_emitted_def)
  show ?thesis
    apply (rule exI [of _ "\<lparr>sourceFile = original_name, pageCount = length ps, pages = ps\<rparr>"])
    apply (rule exI [of _ tls])
    using m t texts nonempty skip unfolding es_def apply simp
    done
qed

theorem empty_spans_dropped_witness:
  "run_pipeline sample_pyfloat Map.empty (Inr example_doc) (of_ascii ''a.pdf'') [] =
     (example_outdir, Inr example_result) \<and>
   0 < length example_doc \<and>
   span_text_of (example_spans ! 1) = [] \<and>
   (\<exists>m tls.
           example_outdir (of_ascii ''manifest.json'') = Some (ManifestFile m) \<and>
           example_outdir (of_ascii ''text-layer.json'') = Some (TextLayerFile tls) \<and>
           map item_text (items (pages m ! 0)) =
             map span_text_of (filter span_emitted (text_spans (get_text (example_doc ! 0)))) \<and>
           map pdf_text (tl_items (tls ! 0)) =
             map span_text_of (filter span_emitted (text_spans (get_text (example_doc ! 0)))) \<and>
           (\<forall>it\<in>set (items (pages m ! 0)).
              item_text it \<noteq> [] \<and> strip (item_text it) = item_text it) \<and>
           (\<forall>it\<in>set (tl_items (tls ! 0)).
              pdf_text it \<noteq> [] \<and> strip (pdf_text it) = pdf_text it) \<and>
           \<not> span_emitted (example_spans ! 1) \<and>
           span_step 2 2 (example_spans ! 1) ([], []) = ([], []))"
proof -
  have len: "0 < length example_doc" by (simp add: example_doc_def)
  have blank: "span_text_of (example_spans ! 1) = []"
    by (simp add: example_spans_def span_text_of_def strip_examples)
  from empty_spans_dropped [OF example_run len] example_run len blank show ?thesis by blast
qed

lemma process_page_raises_indep:
  "isl (snd (process_page pyfloat outdir i (page\<lparr>get_text := td\<rparr>))) =
   isl (snd (process_page pyfloat outdir i page))"
  by (simp add: process_page_def Let_def split: sum.splits)

lemma span_emitted_iff:
  "span_emitted s \<longleftrightarrow>
     span_text_of s \<noteq> [] \<and>
     (case span_bbox s of None \<Rightarrow> True | Some b \<Rightarrow> b = [] \<or> length b = 4)"
  by (auto simp: span_emitted_def span_bbox_of_def split: option.splits)

lemma image_kept_iff:
  "image_kept blk \<longleftrightarrow> block_type blk = Some 1 \<and> (\<exists>b. block_bbox blk = Some b \<and> length b = 4)"
  by (auto simp: image_kept_def split: option.splits)

text \<open>
  The claim C6 as stated fails: the fourth span of the example page has no bbox, and the
  run emits it, with the bbox \<open>[0, 0, 0, 0]\<close>, as the second item of the page's text
  layer and of its manifest entry.
\<close>

theorem missing_bbox_span_emitted:
  "span_bbox (example_spans ! 3) = None \<and>
   span_text (example_spans ! 3) = Some (of_ascii ''No'') \<and>
   text_spans (get_text (example_doc ! 0)) = example_spans \<and>
   run_pipeline sample_pyfloat Map.empty (Inr example_doc) (of_ascii ''a.pdf'') [] =
     (example_outdir, Inr example_result) \<and>
   example_outdir (of_ascii ''text-layer.json'') = Some (TextLayerFile example_text_layers) \<and>
   example_outdir (of_ascii ''manifest.json'') = Some (ManifestFile example_manifest) \<and>
   tl_items (example_text_layers ! 0) ! 1 =
     \<lparr>pdf_text = of_ascii ''No'', pdf_bbox = [0, 0, 0, 0], pdf_size = 0, pdf_font = []\<rparr> \<and>
   items (pages example_manifest ! 0) ! 1 =
     \<lparr>box_x = 0, box_y = 0, box_w = 0, box_h = 0,
      item_text = of_ascii ''No'', item_size = 0, item_font = []\<rparr> \<and>
   span_step 2 2 (example_spans ! 3) ([], []) =
     ([\<lparr>pdf_text = of_ascii ''No'', pdf_bbox = [0, 0, 0, 0], pdf_size = 0, pdf_font = []\<rparr>],
      [\<lparr>box_x = 0, box_y = 0, box_w = 0, box_h = 0,
        item_text = of_ascii ''No'', item_size = 0, item_font = []\<rparr>])"
proof -
  have "text_spans (get_text (example_doc ! 0)) = example_spans"
    by (simp add: example_doc_def example_page_def text_spans_def)
  moreover have "example_outdir (of_ascii ''text-layer.json'') = Some (TextLayerFile example_text_layers)"
    "example_outdir (of_ascii ''manifest.json'') = Some (ManifestFile example_manifest)"
    by (simp_all add: example_outdir_def of_ascii_def)
  moreover have "span_step 2 2 (example_spans ! 3) ([], []) =
     ([\<lparr>pdf_text = of_ascii ''No'', pdf_bbox = [0, 0, 0, 0], pdf_size = 0, pdf_font = []\<rparr>],
      [\<lparr>box_x = 0, box_y = 0, box_w = 0, box_h = 0,
        item_text = of_ascii ''No'', item_size = 0, item_font = []\<rparr>])"
    by (simp add: example_spans_def span_step_def span_text_of_def span_bbox_of_def
          span_size_of_def span_font_of_def strip_examples bbox_to_dict_def Let_def
          bbox_dict.defs render_item.defs)
       (simp add: of_ascii_def)
  moreover have "span_bbox (example_spans ! 3) = None"
    "span_text (example_spans ! 3) = Some (of_ascii ''No'')"
    by (simp_all add: example_spans_def)
  moreover have "tl_items (example_text_layers ! 0) ! 1 =
     \<lparr>pdf_text = of_ascii ''No'', pdf_bbox = [0, 0, 0, 0], pdf_size = 0, pdf_font = []\<rparr>"
    "items (pages example_manifest ! 0) ! 1 =
     \<lparr>box_x = 0, box_y = 0, box_w = 0, box_h = 0,
      item_text = of_ascii ''No'', item_size = 0, item_font = []\<rparr>"
    by (simp_all add: example_text_layers_def example_manifest_def)
  ultimately show ?thesis using example_run by simp
qed

text \<open>
  C6, amended: a span whose bbox is present, non-empty and does not have exactly 4
  components is skipped: it adds nothing to the manifest or the text layer; no shape of
  the page's spans and blocks changes whether the page raises; the entries of the page
  are those of the other spans, in order. A span whose bbox is missing or empty is not
  skipped on that account: its bbox is taken to be \<open>[0, 0, 0, 0]\<close>, and when its trimmed
  text is non-empty it is emitted with that bbox, in the text layer and, as a box of zeros,
  in the manifest (when its trimmed text is empty it is dropped, as every such span is).
  An image block is emitted exactly when its bbox is present with exactly 4 components,
  and is skipped otherwise.
\<close>

theorem malformed_bbox_skipped:
  assumes "run_pipeline pyfloat outdir (Inr doc) original_name tesseract_path = (outdir', Inr res)"
    and "p < length doc"
  shows "\<exists>m tls pix sx sy.
           outdir' (of_ascii ''manifest.json'') = Some (ManifestFile m) \<and>
           outdir' (of_ascii ''text-layer.json'') = Some (TextLayerFile tls) \<and>
           get_pixmap (doc ! p) = Inr pix \<and>
           page_scale (rect_width (doc ! p)) (rect_height (doc ! p)) pix = (sx, sy) \<and>
           tl_items (tls ! p) =
             map pdf_item_of (filter span_emitted (text_spans (get_text (doc ! p)))) \<and>
           items (pages m ! p) =
             map (render_item_of sx sy) (filter span_emitted (text_spans (get_text (doc ! p)))) \<and>
           imageBoxes (pages m ! p) =
             map (image_box_of sx sy)
               (filter image_kept
                  (case td_blocks (get_text (doc ! p)) of None \<Rightarrow> [] | Some bs \<Rightarrow> bs)) \<and>
           (\<forall>s b. span_bbox s = Some b \<and> b \<noteq> [] \<and> length b \<noteq> 4 \<longrightarrow>
              \<not> span_emitted s \<and> (\<forall>sx sy st. span_step sx sy s st = st)) \<and>
           (\<forall>s. span_bbox s = None \<or> span_bbox s = Some [] \<longrightarrow>
              span_bbox_of s = [0, 0, 0, 0] \<and> (span_emitted s \<longleftrightarrow> span_text_of s \<noteq> [])) \<and>
           (\<forall>s sx sy st.
              (span_bbox s = None \<or> span_bbox s = Some []) \<and> span_text_of s \<noteq> [] \<longrightarrow>
              span_step sx sy s st =
                (fst st @ [\<lparr>pdf_text = span_text_of s, pdf_bbox = [0, 0, 0, 0],
                            pdf_size = span_size_of s, pdf_font = span_font_of s\<rparr>],
                 snd st @ [\<lparr>box_x = 0, box_y = 0, box_w = 0, box_h = 0,
                            item_text = span_text_of s, item_size = span_size_of s,
                            item_font = span_font_of s\<rparr>])) \<and>
           (\<forall>s b. span_bbox s = Some b \<and> length b = 4 \<longrightarrow>
              span_bbox_of s = b \<and> (span_emitted s \<longleftrightarrow> span_text_of s \<noteq> [])) \<and>
           (\<forall>blk. image_kept blk \<longleftrightarrow>
              block_type blk = Some 1 \<and> (\<exists>b. block_bbox blk = Some b \<and> length b = 4)) \<and>
           (\<forall>blk sx sy acc. \<not> image_kept blk \<longrightarrow> image_step sx sy blk acc = acc) \<and>
           (\<forall>td outdir0.
              isl (snd (process_page pyfloat outdir0 p ((doc ! p)\<lparr>get_text := td\<rparr>))) =
              isl (snd (process_page pyfloat outdir0 p (doc ! p))))"
proof -
  from run_pipeline_page [OF assms] obtain ps tls pix ocr where
    m: "outdir' (of_ascii ''manifest.json'') =
          Some (ManifestFile \<lparr>sourceFile = original_name, pageCount = length ps, pages = ps\<rparr>)"
    and t: "outdir' (of_ascii ''text-layer.json'') = Some (TextLayerFile tls)"
    and pix: "get_pixmap (doc ! p) = Inr pix"
    and r: "ps ! p = page_record_of pyfloat p (doc ! p) pix ocr"
    and l: "tls ! p = text_layer_of p (doc ! p)"
    by blast
  obtain sx sy where sc: "page_scale (rect_width (doc ! p)) (rect_height (doc ! p)) pix = (sx, sy)"
    by (cases "page_scale (rect_width (doc ! p)) (rect_height (doc ! p)) pix")
  from r l sc have out:
    "tl_items (tls ! p) = map pdf_item_of (filter span_emitted (text_spans (get_text (doc ! p))))"
    "items (ps ! p) =
       map (render_item_of sx sy) (filter span_emitted (text_spans (get_text (doc ! p))))"
    "imageBoxes (ps ! p) =
       map (image_box_of sx sy)
         (filter image_kept (case td_blocks (get_text (doc ! p)) of None \<Rightarrow> [] | Some bs \<Rightarrow> bs))"
    by (simp_all add: page_record_of_def text_layer_of_def)
  have bad: "\<forall>s b. span_bbox s = Some b \<and> b \<noteq> [] \<and> length b \<noteq> 4 \<longrightarrow>
              \<not> span_emitted s \<and> (\<forall>sx sy st. span_step sx sy s st = st)"
    by (auto simp: span_step_eq span_emitted_iff)
  have missing: "\<forall>s. span_bbox s = None \<or> span_bbox s = Some [] \<longrightarrow>
              span_bbox_of s = [0, 0, 0, 0] \<and> (span_emitted s \<longleftrightarrow> span_text_of s \<noteq> [])"
    by (auto simp: span_emitted_iff span_bbox_of_def)
  have emit: "\<forall>s sx sy st.
              (span_bbox s = None \<or> span_bbox s = Some []) \<and> span_text_of s \<noteq> [] \<longrightarrow>
              span_step sx sy s st =
                (fst st @ [\<lparr>pdf_text = span_text_of s, pdf_bbox = [0, 0, 0, 0],
                            pdf_size = span_size_of s, pdf_font = span_font_of s\<rparr>],
                 snd st @ [\<lparr>box_x = 0, box_y = 0, box_w = 0, box_h = 0,
                            item_text = span_text_of s, item_size = span_size_of s,
                            item_font = span_font_of s\<rparr>])"
    by (auto simp: span_step_eq span_emitted_iff span_bbox_of_def pdf_item_of_def
          render_item_of_def)
  have good: "\<forall>s b. span_bbox s = Some b \<and> length b = 4 \<longrightarrow>
              span_bbox_of s = b \<and> (span_emitted s \<longleftrightarrow> span_text_of s \<noteq> [])"
    by (auto simp: span_emitted_iff span_bbox_of_def)
  have img: "\<forall>blk. image_kept blk \<longleftrightarrow>
              block_type blk = Some 1 \<and> (\<exists>b. block_bbox blk = Some b \<and> length b = 4)"
    by (simp add: image_kept_iff)
  have img_skip: "\<forall>blk sx sy acc. \<not> image_kept blk \<longrightarrow> image_step sx sy blk acc = acc"
    by (simp add: image_step_eq)
  have raises: "\<forall>td outdir0.
              isl (snd (process_page pyfloat outdir0 p ((doc ! p)\<lparr>get_text := td\<rparr>))) =
              isl (snd (process_page pyfloat outdir0 p (doc ! p)))"
    by (simp add: process_page_raises_indep)
  define mm where "mm = \<lparr>sourceFile = original_name, pageCount = length ps, pages = ps\<rparr>"
  have pm: "pages mm = ps" by (simp add: mm_def)
  from m have m': "outdir' (of_ascii ''manifest.json'') = Some (ManifestFile mm)"
    by (simp add: mm_def)
  note out' = out(1) out(2,3) [folded pm]
  from m' t pix sc out' bad missing emit good img img_skip raises show ?thesis
    by (intro exI [of _ mm] exI [of _ tls] exI [of _ pix] exI [of _ sx] exI [of _ sy] conjI)
qed


theorem malformed_bbox_skipped_witness:
  "run_pipeline sample_pyfloat Map.empty (Inr example_doc) (of_ascii ''a.pdf'') [] =
     (example_outdir, Inr example_result) \<and>
   0 < length example_doc \<and>
   span_bbox (example_spans ! 2) = Some [1, 2, 3] \<and>
   span_bbox (example_spans ! 3) = None \<and>
   span_bbox (example_spans ! 0) = Some [100, 100, 200, 120] \<and>
   (\<exists>m tls pix sx sy.
           example_outdir (of_ascii ''manifest.json'') = Some (ManifestFile m) \<and>
           example_outdir (of_ascii ''text-layer.json'') = Some (TextLayerFile tls) \<and>
           get_pixmap (example_doc ! 0) = Inr pix \<and>
           page_scale (rect_width (example_doc ! 0)) (rect_height (example_doc ! 0)) pix = (sx, sy) \<and>
           tl_items (tls ! 0) =
             map pdf_item_of (filter span_emitted (text_spans (get_text (example_doc ! 0)))) \<and>
           items (pages m ! 0) =
             map (render_item_of sx sy)
               (filter span_emitted (text_spans (get_text (example_doc ! 0)))) \<and>
           imageBoxes (pages m ! 0) =
             map (image_box_of sx sy)
               (filter image_kept
                  (case td_blocks (get_text (example_doc ! 0)) of None \<Rightarrow> [] | Some bs \<Rightarrow> bs)) \<and>
           \<not> span_emitted (example_spans ! 2) \<and>
           span_step 2 2 (example_spans ! 2) ([], []) = ([], []) \<and>
           span_bbox_of (example_spans ! 3) = [0, 0, 0, 0] \<and>
           (span_emitted (example_spans ! 3) \<longleftrightarrow> span_text_of (example_spans ! 3) \<noteq> []) \<and>
           span_text_of (example_spans ! 3) \<noteq> [] \<and>
           span_step 2 2 (example_spans ! 3) ([], []) =
             ([\<lparr>pdf_text = span_text_of (example_spans ! 3), pdf_bbox = [0, 0, 0, 0],
                pdf_size = span_size_of (example_spans ! 3),
                pdf_font = span_font_of (example_spans ! 3)\<rparr>],
              [\<lparr>box_x = 0, box_y = 0, box_w = 0, box_h = 0,
                item_text = span_text_of (example_spans ! 3),
                item_size = span_size_of (example_spans ! 3),
                item_font = span_font_of (example_spans ! 3)\<rparr>]) \<and>
           span_bbox_of (example_spans ! 0) = [100, 100, 200, 120] \<and>
           (span_emitted (example_spans ! 0) \<longleftrightarrow> span_text_of (example_spans ! 0) \<noteq> []) \<and>
           (\<forall>blk. \<not> image_kept blk \<longrightarrow> image_step 2 2 blk [] = []) \<and>
           (\<forall>td. isl (snd (process_page sample_pyfloat Map.empty 0
                              ((example_doc ! 0)\<lparr>get_text := td\<rparr>))) =
                 isl (snd (process_page sample_pyfloat Map.empty 0 (example_doc ! 0)))))"
proof -
  have len: "0 < length example_doc" by (simp add: example_doc_def)
  have b2: "span_bbox (example_spans ! 2) = Some [1, 2, 3]"
    and b3: "span_bbox (example_spans ! 3) = None"
    and b0: "span_bbox (example_spans ! 0) = Some [100, 100, 200, 120]"
    by (simp_all add: example_spans_def)
  have l2: "[1, 2, 3 :: real] \<noteq> [] \<and> length [1, 2, 3 :: real] \<noteq> 4"
    and l0: "length [100, 100, 200, 120 :: real] = 4"
    by simp_all
  from malformed_bbox_skipped [OF example_run len] obtain m tls pix sx sy where
    A: "example_outdir (of_ascii ''manifest.json'') = Some (ManifestFile m)"
      "example_outdir (of_ascii ''text-layer.json'') = Some (TextLayerFile tls)"
      "get_pixmap (example_doc ! 0) = Inr pix"
      "page_scale (rect_width (example_doc ! 0)) (rect_height (example_doc ! 0)) pix = (sx, sy)"
      "tl_items (tls ! 0) =
         map pdf_item_of (filter span_emitted (text_spans (get_text (example_doc ! 0))))"
      "items (pages m ! 0) =
         map (render_item_of sx sy)
           (filter span_emitted (text_spans (get_text (example_doc ! 0))))"
      "imageBoxes (pages m ! 0) =
         map (image_box_of sx sy)
           (filter image_kept
              (case td_blocks (get_text (example_doc ! 0)) of None \<Rightarrow> [] | Some bs \<Rightarrow> bs))"
    and bad: "\<forall>s b. span_bbox s = Some b \<and> b \<noteq> [] \<and> length b \<noteq> 4 \<longrightarrow>
              \<not> span_emitted s \<and> (\<forall>sx sy st. span_step sx sy s st = st)"
    and missing: "\<forall>s. span_bbox s = None \<or> span_bbox s = Some [] \<longrightarrow>
              span_bbox_of s = [0, 0, 0, 0] \<and> (span_emitted s \<longleftrightarrow> span_text_of s \<noteq> [])"
    and emit: "\<forall>s sx sy st.
              (span_bbox s = None \<or> span_bbox s = Some []) \<and> span_text_of s \<noteq> [] \<longrightarrow>
              span_step sx sy s st =
                (fst st @ [\<lparr>pdf_text = span_text_of s, pdf_bbox = [0, 0, 0, 0],
                            pdf_size = span_size_of s, pdf_font = span_font_of s\<rparr>],
                 snd st @ [\<lparr>box_x = 0, box_y = 0, box_w = 0, box_h = 0,
                            item_text = span_text_of s, item_size = span_size_of s,
                            item_font = span_font_of s\<rparr>])"
    and good: "\<forall>s b. span_bbox s = Some b \<and> length b = 4 \<longrightarrow>
              span_bbox_of s = b \<and> (span_emitted s \<longleftrightarrow> span_text_of s \<noteq> [])"
    and img: "\<forall>blk. image_kept blk \<longleftrightarrow>
              block_type blk = Some 1 \<and> (\<exists>b. block_bbox blk = Some b \<and> length b = 4)"
    and img_skip: "\<forall>blk sx sy acc. \<not> image_kept blk \<longrightarrow> image_step sx sy blk acc = acc"
    and raises: "\<forall>td outdir0.
              isl (snd (process_page sample_pyfloat outdir0 0 ((example_doc ! 0)\<lparr>get_text := td\<rparr>))) =
              isl (snd (process_page sample_pyfloat outdir0 0 (example_doc ! 0)))"
    by (elim exE conjE) (erule (11) that)
  from bad b2 l2 have B2: "\<not> span_emitted (example_spans ! 2)"
    "span_step 2 2 (example_spans ! 2) ([], []) = ([], [])"
    by blast+
  from missing b3 have B3: "span_bbox_of (example_spans ! 3) = [0, 0, 0, 0]"
    "span_emitted (example_spans ! 3) \<longleftrightarrow> span_text_of (example_spans ! 3) \<noteq> []"
    by blast+
  have t3: "span_text_of (example_spans ! 3) \<noteq> []"
    by (simp add: example_spans_def span_text_of_def strip_examples) (simp add: of_ascii_def)
  from emit b3 t3 have E3: "span_step 2 2 (example_spans ! 3) ([], []) =
             ([\<lparr>pdf_text = span_text_of (example_spans ! 3), pdf_bbox = [0, 0, 0, 0],
                pdf_size = span_size_of (example_spans ! 3),
                pdf_font = span_font_of (example_spans ! 3)\<rparr>],
              [\<lparr>box_x = 0, box_y = 0, box_w = 0, box_h = 0,
                item_text = span_text_of (example_spans ! 3),
                item_size = span_size_of (example_spans ! 3),
                item_font = span_font_of (example_spans ! 3)\<rparr>])"
    by simp
  from good b0 l0 have B0: "span_bbox_of (example_spans ! 0) = [100, 100, 200, 120]"
    "span_emitted (example_spans ! 0) \<longleftrightarrow> span_text_of (example_spans ! 0) \<noteq> []"
    by blast+
  from img_skip have I: "\<forall>blk. \<not> image_kept blk \<longrightarrow> image_step 2 2 blk [] = []" by blast
  from raises have R: "\<forall>td. isl (snd (process_page sample_pyfloat Map.empty 0
                              ((example_doc ! 0)\<lparr>get_text := td\<rparr>))) =
                 isl (snd (process_page sample_pyfloat Map.empty 0 (example_doc ! 0)))"
    by blast
  from example_run len b2 b3 b0 A B2 B3 t3 E3 B0 I R show ?thesis
    by (intro conjI exI [of _ m] exI [of _ tls] exI [of _ pix] exI [of _ sx] exI [of _ sy])
qed

lemma pdf_item_of_bbox:
  assumes "span_emitted s"
  shows "pdf_bbox (pdf_item_of s) = span_bbox_of s"
proof -
  from assms have "length (span_bbox_of s) = 4" by (simp add: span_emitted_def)
  from length_four [OF this] show ?thesis by (simp add: pdf_item_of_def)
qed

lemma text_layer_of_cong:
  assumes "get_text pageA = get_text pageB"
  shows "text_layer_of p pageA = text_layer_of p pageB"
  using assms by (simp add: text_layer_of_def)

text \<open>
  C7: on every page of a successful run the text-layer record has exactly as many spans
  as the page's manifest entry has items; each text-layer span carries the bbox of its
  source span as the engine gave it, not scaled; and two successful runs whose pages have
  the same extraction results write the same text layer, whatever the raster dimensions,
  the page sizes and the OCR results are.
\<close>

theorem text_layer_zoom_invariant:
  assumes "run_pipeline pyfloat outdirA (Inr docA) nameA tesseractA = (outdirA', Inr resA)"
    and "run_pipeline pyfloat outdirB (Inr docB) nameB tesseractB = (outdirB', Inr resB)"
    and "map get_text docA = map get_text docB"
  shows "\<exists>mA mB tls.
           outdirA' (of_ascii ''manifest.json'') = Some (ManifestFile mA) \<and>
           outdirB' (of_ascii ''manifest.json'') = Some (ManifestFile mB) \<and>
           outdirA' (of_ascii ''text-layer.json'') = Some (TextLayerFile tls) \<and>
           outdirB' (of_ascii ''text-layer.json'') = Some (TextLayerFile tls) \<and>
           length tls = length docA \<and>
           (\<forall>p<length docA.
              length (tl_items (tls ! p)) = length (items (pages mA ! p)) \<and>
              length (tl_items (tls ! p)) = length (items (pages mB ! p)) \<and>
              map pdf_bbox (tl_items (tls ! p)) =
                map span_bbox_of (filter span_emitted (text_spans (get_text (docA ! p)))))"
proof -
  from assms(3) have len: "length docA = length docB"
    by (rule map_eq_imp_length_eq)
  from assms(3) have gt: "\<And>p. p < length docA \<Longrightarrow> get_text (docA ! p) = get_text (docB ! p)"
    by (metis len nth_map)
  from run_pipeline_all [OF assms(1)] obtain psA tlsA where
    A: "length psA = length docA" "length tlsA = length docA"
      "outdirA' (of_ascii ''manifest.json'') =
         Some (ManifestFile \<lparr>sourceFile = nameA, pageCount = length psA, pages = psA\<rparr>)"
      "outdirA' (of_ascii ''text-layer.json'') = Some (TextLayerFile tlsA)"
    and pA: "\<forall>p<length docA. \<exists>pix ocr.
              get_pixmap (docA ! p) = Inr pix \<and> image_to_data_result (docA ! p) = Inr ocr \<and>
              psA ! p = page_record_of pyfloat p (docA ! p) pix ocr \<and>
              tlsA ! p = text_layer_of p (docA ! p)"
    by blast
  from run_pipeline_all [OF assms(2)] obtain psB tlsB where
    B: "length psB = length docB" "length tlsB = length docB"
      "outdirB' (of_ascii ''manifest.json'') =
         Some (ManifestFile \<lparr>sourceFile = nameB, pageCount = length psB, pages = psB\<rparr>)"
      "outdirB' (of_ascii ''text-layer.json'') = Some (TextLayerFile tlsB)"
    and pB: "\<forall>p<length docB. \<exists>pix ocr.
              get_pixmap (docB ! p) = Inr pix \<and> image_to_data_result (docB ! p) = Inr ocr \<and>
              psB ! p = page_record_of pyfloat p (docB ! p) pix ocr \<and>
              tlsB ! p = text_layer_of p (docB ! p)"
    by blast
  have same: "tlsA = tlsB"
  proof (rule nth_equalityI)
    show "length tlsA = length tlsB" using A(2) B(2) len by simp
  next
    fix p assume "p < length tlsA"
    with A(2) have p: "p < length docA" by simp
    with pA have a: "tlsA ! p = text_layer_of p (docA ! p)" by blast
    from p len pB have b: "tlsB ! p = text_layer_of p (docB ! p)" by auto
    from a b text_layer_of_cong [OF gt [OF p]] show "tlsA ! p = tlsB ! p" by simp
  qed
  define mA where "mA = \<lparr>sourceFile = nameA, pageCount = length psA, pages = psA\<rparr>"
  define mB where "mB = \<lparr>sourceFile = nameB, pageCount = length psB, pages = psB\<rparr>"
  have pm: "pages mA = psA" "pages mB = psB" by (simp_all add: mA_def mB_def)
  have pages: "\<forall>p<length docA.
              length (tl_items (tlsA ! p)) = length (items (pages mA ! p)) \<and>
              length (tl_items (tlsA ! p)) = length (items (pages mB ! p)) \<and>
              map pdf_bbox (tl_items (tlsA ! p)) =
                map span_bbox_of (filter span_emitted (text_spans (get_text (docA ! p))))"
  proof (intro allI impI)
    fix p assume p: "p < length docA"
    define es where "es = filter span_emitted (text_spans (get_text (docA ! p)))"
    from p pA obtain pix ocr where
      a: "psA ! p = page_record_of pyfloat p (docA ! p) pix ocr"
         "tlsA ! p = text_layer_of p (docA ! p)"
      by blast
    from p len pB obtain pix' ocr' where
      b: "psB ! p = page_record_of pyfloat p (docB ! p) pix' ocr'"
      by auto
    from a(2) have t: "tl_items (tlsA ! p) = map pdf_item_of es"
      by (simp add: text_layer_of_def es_def)
    from a(1) have la: "length (items (psA ! p)) = length es"
      by (simp add: page_record_of_def es_def)
    from b gt [OF p] have lb: "length (items (psB ! p)) = length es"
      by (simp add: page_record_of_def es_def)
    have "\<forall>s\<in>set es. pdf_bbox (pdf_item_of s) = span_bbox_of s"
      by (simp add: es_def pdf_item_of_bbox)
    then have "map pdf_bbox (map pdf_item_of es) = map span_bbox_of es"
      by simp
    with t la lb show "length (tl_items (tlsA ! p)) = length (items (pages mA ! p)) \<and>
              length (tl_items (tlsA ! p)) = length (items (pages mB ! p)) \<and>
              map pdf_bbox (tl_items (tlsA ! p)) =
                map span_bbox_of (filter span_emitted (text_spans (get_text (docA ! p))))"
      by (simp add: pm es_def)
  qed
  from A(3) B(3) have m: "outdirA' (of_ascii ''manifest.json'') = Some (ManifestFile mA)"
    "outdirB' (of_ascii ''manifest.json'') = Some (ManifestFile mB)"
    by (simp_all add: mA_def mB_def)
  from B(4) same have tB: "outdirB' (of_ascii ''text-layer.json'') = Some (TextLayerFile tlsA)"
    by simp
  from m A(4) tB A(2) pages show ?thesis
    by (intro exI [of _ mA] exI [of _ mB] exI [of _ tlsA] conjI)
qed

lemma example_zoom1_run:
  "\<exists>out res. run_pipeline sample_pyfloat example_outdir (Inr example_doc_zoom1)
                (of_ascii ''a.pdf'') [] = (out, Inr res)"
proof (rule run_pipeline_ok)
  show "\<forall>page\<in>set example_doc_zoom1. page_ok sample_pyfloat page"
    by (simp add: example_doc_zoom1_def page_ok_def example_page_def example_blank_page_def
          example_ocr_columns_ok)
       (simp add: ocr_columns_ok_def)
qed

lemma example_zoom1_same_text:
  "map get_text example_doc = map get_text example_doc_zoom1"
  by (simp add: example_doc_def example_doc_zoom1_def)

theorem text_layer_zoom_invariant_witness:
  "run_pipeline sample_pyfloat Map.empty (Inr example_doc) (of_ascii ''a.pdf'') [] =
     (example_outdir, Inr example_result) \<and>
   map get_text example_doc = map get_text example_doc_zoom1 \<and>
   map get_pixmap example_doc \<noteq> map get_pixmap example_doc_zoom1 \<and>
   (\<exists>outdirB' resB mA mB tls.
      run_pipeline sample_pyfloat example_outdir (Inr example_doc_zoom1) (of_ascii ''a.pdf'') [] =
        (outdirB', Inr resB) \<and>
      example_outdir (of_ascii ''manifest.json'') = Some (ManifestFile mA) \<and>
      outdirB' (of_ascii ''manifest.json'') = Some (ManifestFile mB) \<and>
      example_outdir (of_ascii ''text-layer.json'') = Some (TextLayerFile tls) \<and>
      outdirB' (of_ascii ''text-layer.json'') = Some (TextLayerFile tls) \<and>
      length tls = length example_doc \<and>
      (\<forall>p<length example_doc.
         length (tl_items (tls ! p)) = length (items (pages mA ! p)) \<and>
         length (tl_items (tls ! p)) = length (items (pages mB ! p)) \<and>
         map pdf_bbox (tl_items (tls ! p)) =
           map span_bbox_of (filter span_emitted (text_spans (get_text (example_doc ! p))))))"
proof -
  from example_zoom1_run obtain outdirB' resB where
    runB: "run_pipeline sample_pyfloat example_outdir (Inr example_doc_zoom1)
             (of_ascii ''a.pdf'') [] = (outdirB', Inr resB)"
    by blast
  have diff: "map get_pixmap example_doc \<noteq> map get_pixmap example_doc_zoom1"
    by (simp add: example_doc_def example_doc_zoom1_def example_page_def)
  from text_layer_zoom_invariant [OF example_run runB example_zoom1_same_text]
    example_run example_zoom1_same_text diff runB
  show ?thesis by blast
qed

text \<open>
  C9: the content the run hands to \<^verbatim>\<open>json.dumps\<close> for \<^verbatim>\<open>manifest.json\<close> and for
  \<^verbatim>\<open>text-layer.json\<close> is a function of the engines' results alone (and
  \<^verbatim>\<open>json.dumps\<close> is a function of that content, whose dictionaries keep insertion
  order). A run that succeeds from one state of the output directory succeeds with the
  same result from any other state, in particular from the directory the first run left,
  and writes the same two files.
\<close>

theorem pipeline_deterministic:
  assumes "run_pipeline pyfloat outdirA opened original_name tesseract_path = (outdirA', Inr res)"
  shows "\<exists>outdirB' m tls.
           run_pipeline pyfloat outdirB opened original_name tesseract_path = (outdirB', Inr res) \<and>
           outdirA' (of_ascii ''manifest.json'') = Some (ManifestFile m) \<and>
           outdirB' (of_ascii ''manifest.json'') = Some (ManifestFile m) \<and>
           outdirA' (of_ascii ''text-layer.json'') = Some (TextLayerFile tls) \<and>
           outdirB' (of_ascii ''text-layer.json'') = Some (TextLayerFile tls)"
proof -
  from run_pipeline_Inr [OF assms] obtain doc outdir1 ps tls where
    doc: "opened = Inr doc"
    and loopA: "pages_loop pyfloat (enumerate 0 doc) (outdirA, [], []) = (outdir1, Inr (ps, tls))"
    and outA: "outdirA' = outdir1
             (of_ascii ''manifest.json'' \<mapsto>
                ManifestFile \<lparr>sourceFile = original_name, pageCount = length ps, pages = ps\<rparr>,
              of_ascii ''text-layer.json'' \<mapsto> TextLayerFile tls,
              of_ascii ''index.html'' \<mapsto> HtmlFile (html_escape original_name))"
    and res: "res = [(''ok'', JBool True), (''pages'', JInt (int (length ps))),
                  (''preview'', JStr (of_ascii ''index.html''))]"
    by blast
  obtain outdir2 r where loopB: "pages_loop pyfloat (enumerate 0 doc) (outdirB, [], []) = (outdir2, r)"
    by (cases "pages_loop pyfloat (enumerate 0 doc) (outdirB, [], [])")
  from pages_loop_snd_indep [of pyfloat "enumerate 0 doc" outdirB "[]" "[]" outdirA] loopA loopB
  have r: "r = Inr (ps, tls)" by simp
  define m where "m = \<lparr>sourceFile = original_name, pageCount = length ps, pages = ps\<rparr>"
  define outdirB' where "outdirB' = outdir2
             (of_ascii ''manifest.json'' \<mapsto> ManifestFile m,
              of_ascii ''text-layer.json'' \<mapsto> TextLayerFile tls,
              of_ascii ''index.html'' \<mapsto> HtmlFile (html_escape original_name))"
  from doc loopB r res
  have runB: "run_pipeline pyfloat outdirB opened original_name tesseract_path = (outdirB', Inr res)"
    by (simp add: run_pipeline_def Let_def write_template_html_def outdirB'_def m_def)
  from outA have filesA:
    "outdirA' (of_ascii ''manifest.json'') = Some (ManifestFile m)"
    "outdirA' (of_ascii ''text-layer.json'') = Some (TextLayerFile tls)"
    by (simp_all add: out_file_names m_def)
  have filesB:
    "outdirB' (of_ascii ''manifest.json'') = Some (ManifestFile m)"
    "outdirB' (of_ascii ''text-layer.json'') = Some (TextLayerFile tls)"
    by (simp_all add: out_file_names outdirB'_def)
  from runB filesA(1) filesB(1) filesA(2) filesB(2) show ?thesis
    by (intro exI [of _ outdirB'] exI [of _ m] exI [of _ tls] conjI)
qed

theorem pipeline_deterministic_witness:
  "run_pipeline sample_pyfloat Map.empty (Inr example_doc) (of_ascii ''a.pdf'') [] =
     (example_outdir, Inr example_result) \<and>
   (\<exists>outdirB' m tls.
      run_pipeline sample_pyfloat example_outdir (Inr example_doc) (of_ascii ''a.pdf'') [] =
        (outdirB', Inr example_result) \<and>
      example_outdir (of_ascii ''manifest.json'') = Some (ManifestFile m) \<and>
      outdirB' (of_ascii ''manifest.json'') = Some (ManifestFile m) \<and>
      example_outdir (of_ascii ''text-layer.json'') = Some (TextLayerFile tls) \<and>
      outdirB' (of_ascii ''text-layer.json'') = Some (TextLayerFile tls))"
  using pipeline_deterministic [OF example_run, of example_outdir] example_run by blast

text \<open>
  C10: when the pipeline returns its result, \<^verbatim>\<open>main\<close> prints that one object,
  \<open>{ok: true, pages: n, preview: "index.html"}\<close> with \<open>n\<close> the number of pages of the
  document, all of them processed, and no exception leaves it (status 0). When the
  pipeline raises, \<^verbatim>\<open>main\<close> first prints \<open>{ok: false, error: str(exc), traceback: ...}\<close>
  and only then re-raises the exception, which ends the process with a non-zero status.
\<close>

theorem invocation_boundary:
  "(run_pipeline pyfloat outdir opened original_name tesseract = (outdir', Inr res) \<longrightarrow>
      main pyfloat format_exc outdir opened original_name tesseract = (outdir', [Print res]) \<and>
      (\<exists>doc. opened = Inr doc \<and>
         res = [(''ok'', JBool True), (''pages'', JInt (int (length doc))),
                (''preview'', JStr (of_ascii ''index.html''))]) \<and>
      exit_status (snd (main pyfloat format_exc outdir opened original_name tesseract)) = 0) \<and>
   (run_pipeline pyfloat outdir opened original_name tesseract = (outdir', Inl exc) \<longrightarrow>
      main pyfloat format_exc outdir opened original_name tesseract =
        (outdir',
         [Print [(''ok'', JBool False), (''error'', JStr (str_exn exc)),
                 (''traceback'', JStr (format_exc exc))],
          Reraise exc]) \<and>
      exit_status (snd (main pyfloat format_exc outdir opened original_name tesseract)) \<noteq> 0)"
proof (intro conjI impI)
  assume run: "run_pipeline pyfloat outdir opened original_name tesseract = (outdir', Inr res)"
  then show m: "main pyfloat format_exc outdir opened original_name tesseract = (outdir', [Print res])"
    by (simp add: main_def)
  then show "exit_status (snd (main pyfloat format_exc outdir opened original_name tesseract)) = 0"
    by simp
  from run obtain doc where doc: "opened = Inr doc"
    by (cases opened) (simp_all add: run_pipeline_def)
  from run_pipeline_pages [OF run [unfolded doc]] doc
  show "\<exists>doc. opened = Inr doc \<and>
         res = [(''ok'', JBool True), (''pages'', JInt (int (length doc))),
                (''preview'', JStr (of_ascii ''index.html''))]"
    by auto
next
  assume run: "run_pipeline pyfloat outdir opened original_name tesseract = (outdir', Inl exc)"
  then show m: "main pyfloat format_exc outdir opened original_name tesseract =
        (outdir',
         [Print [(''ok'', JBool False), (''error'', JStr (str_exn exc)),
                 (''traceback'', JStr (format_exc exc))],
          Reraise exc])"
    by (simp add: main_def)
  then show "exit_status (snd (main pyfloat format_exc outdir opened original_name tesseract)) \<noteq> 0"
    by simp
qed

lemma example_open_failure:
  "run_pipeline sample_pyfloat Map.empty (Inl (EngineError (of_ascii ''no such file'')))
     (of_ascii ''a.pdf'') [] = (Map.empty, Inl (EngineError (of_ascii ''no such file'')))"
  by (simp add: run_pipeline_def)

theorem invocation_boundary_witness:
  "run_pipeline sample_pyfloat Map.empty (Inr example_doc) (of_ascii ''a.pdf'') [] =
     (example_outdir, Inr example_result) \<and>
   main sample_pyfloat (\<lambda>e. of_ascii ''Traceback'') Map.empty (Inr example_doc)
     (of_ascii ''a.pdf'') [] =
     (example_outdir,
      [Print [(''ok'', JBool True), (''pages'', JInt 2),
              (''preview'', JStr (of_ascii ''index.html''))]]) \<and>
   exit_status (snd (main sample_pyfloat (\<lambda>e. of_ascii ''Traceback'') Map.empty (Inr example_doc)
     (of_ascii ''a.pdf'') [])) = 0 \<and>
   run_pipeline sample_pyfloat Map.empty (Inl (EngineError (of_ascii ''no such file'')))
     (of_ascii ''a.pdf'') [] = (Map.empty, Inl (EngineError (of_ascii ''no such file''))) \<and>
   main sample_pyfloat (\<lambda>e. of_ascii ''Traceback'') Map.empty
     (Inl (EngineError (of_ascii ''no such file''))) (of_ascii ''a.pdf'') [] =
     (Map.empty,
      [Print [(''ok'', JBool False), (''error'', JStr (of_ascii ''no such file'')),
              (''traceback'', JStr (of_ascii ''Traceback''))],
       Reraise (EngineError (of_ascii ''no such file''))]) \<and>
   exit_status (snd (main sample_pyfloat (\<lambda>e. of_ascii ''Traceback'') Map.empty
     (Inl (EngineError (of_ascii ''no such file''))) (of_ascii ''a.pdf'') [])) \<noteq> 0"
proof -
  note ok = invocation_boundary [of sample_pyfloat Map.empty "Inr example_doc"
      "of_ascii ''a.pdf''" "[]" example_outdir example_result "\<lambda>e. of_ascii ''Traceback''"]
  note ko = invocation_boundary [of sample_pyfloat Map.empty
      "Inl (EngineError (of_ascii ''no such file''))" "of_ascii ''a.pdf''" "[]" Map.empty _
      "\<lambda>e. of_ascii ''Traceback''" "EngineError (of_ascii ''no such file'')"]
  from ok example_run
  have A: "main sample_pyfloat (\<lambda>e. of_ascii ''Traceback'') Map.empty (Inr example_doc)
     (of_ascii ''a.pdf'') [] = (example_outdir, [Print example_result])"
    "exit_status (snd (main sample_pyfloat (\<lambda>e. of_ascii ''Traceback'') Map.empty (Inr example_doc)
     (of_ascii ''a.pdf'') [])) = 0"
    by blast+
  from ko example_open_failure
  have B: "main sample_pyfloat (\<lambda>e. of_ascii ''Traceback'') Map.empty
     (Inl (EngineError (of_ascii ''no such file''))) (of_ascii ''a.pdf'') [] =
     (Map.empty,
      [Print [(''ok'', JBool False), (''error'', JStr (str_exn (EngineError (of_ascii ''no such file'')))),
              (''traceback'', JStr (of_ascii ''Traceback''))],
       Reraise (EngineError (of_ascii ''no such file''))])"
    "exit_status (snd (main sample_pyfloat (\<lambda>e. of_ascii ''Traceback'') Map.empty
     (Inl (EngineError (of_ascii ''no such file''))) (of_ascii ''a.pdf'') [])) \<noteq> 0"
    by blast+
  from A B example_run example_open_failure show ?thesis
    by (simp add: example_result_def str_exn_def)
qed

end
